theory Spec2Isabelle
  imports Complex_Main "HOL-Library.Word"
begin

section \<open>JavaScript numbers\<close>

text \<open>
  The analysis classes of \<^verbatim>\<open>AudioVisualizer.ts\<close> compute with JavaScript numbers. A
  number is modelled as a real (no rounding, no overflow) or one of the three special
  values; the sign of a zero is not tracked. From finite operands, a special value arises
  in a division by zero (\<^verbatim>\<open>0/0\<close> is NaN and \<^verbatim>\<open>x/0\<close> is an infinity) and in the
  square root of a negative number (NaN).
  The samples handed to the analysis classes are computed from bytes by
  \<open>processAudioData\<close> and the readings of \<^verbatim>\<open>performance.now()\<close> are finite: both are
  modelled as reals.
\<close>

datatype number = Num real | PInf | NInf | NaN

fun jneg :: "number \<Rightarrow> number" where
  "jneg (Num a) = Num (- a)"
| "jneg PInf = NInf"
| "jneg NInf = PInf"
| "jneg NaN = NaN"

fun jadd :: "number \<Rightarrow> number \<Rightarrow> number" where
  "jadd (Num a) (Num b) = Num (a + b)"
| "jadd NaN _ = NaN"
| "jadd _ NaN = NaN"
| "jadd PInf NInf = NaN"
| "jadd NInf PInf = NaN"
| "jadd PInf _ = PInf"
| "jadd _ PInf = PInf"
| "jadd NInf _ = NInf"
| "jadd _ NInf = NInf"

definition jsub :: "number \<Rightarrow> number \<Rightarrow> number" where
  "jsub a b = jadd a (jneg b)"

text \<open>The sign of a number, for products and quotients with an infinity.\<close>

fun jsign :: "number \<Rightarrow> int" where
  "jsign (Num a) = (if a > 0 then 1 else if a < 0 then -1 else 0)"
| "jsign PInf = 1"
| "jsign NInf = -1"
| "jsign NaN = 0"

definition inf_of_sign :: "int \<Rightarrow> number" where
  "inf_of_sign s = (if s > 0 then PInf else if s < 0 then NInf else NaN)"

fun jmul :: "number \<Rightarrow> number \<Rightarrow> number" where
  "jmul (Num a) (Num b) = Num (a * b)"
| "jmul NaN _ = NaN"
| "jmul _ NaN = NaN"
| "jmul a b = inf_of_sign (jsign a * jsign b)"

fun jdiv :: "number \<Rightarrow> number \<Rightarrow> number" where
  "jdiv (Num a) (Num b) =
     (if b \<noteq> 0 then Num (a / b) else inf_of_sign (jsign (Num a)))"
| "jdiv NaN _ = NaN"
| "jdiv _ NaN = NaN"
| "jdiv (Num a) _ = Num 0"
| "jdiv a (Num b) = inf_of_sign (jsign a * (if b < 0 then -1 else 1))"
| "jdiv _ _ = NaN"

fun jsqrt :: "number \<Rightarrow> number" where
  "jsqrt (Num a) = (if a < 0 then NaN else Num (sqrt a))"
| "jsqrt PInf = PInf"
| "jsqrt NInf = NaN"
| "jsqrt NaN = NaN"

text \<open>Comparisons: every comparison with NaN is false.\<close>

fun jlt :: "number \<Rightarrow> number \<Rightarrow> bool" where
  "jlt (Num a) (Num b) = (a < b)"
| "jlt NaN _ = False"
| "jlt _ NaN = False"
| "jlt NInf NInf = False"
| "jlt NInf _ = True"
| "jlt PInf _ = False"
| "jlt (Num a) PInf = True"
| "jlt (Num a) NInf = False"

fun jle :: "number \<Rightarrow> number \<Rightarrow> bool" where
  "jle (Num a) (Num b) = (a \<le> b)"
| "jle NaN _ = False"
| "jle _ NaN = False"
| "jle NInf _ = True"
| "jle _ PInf = True"
| "jle PInf _ = False"
| "jle (Num a) NInf = False"

definition jgt :: "number \<Rightarrow> number \<Rightarrow> bool" where
  "jgt a b = jlt b a"

definition jge :: "number \<Rightarrow> number \<Rightarrow> bool" where
  "jge a b = jle b a"

text \<open>\<^verbatim>\<open>Math.min\<close> and \<^verbatim>\<open>Math.max\<close> return NaN when an argument is NaN.\<close>

definition jmin :: "number \<Rightarrow> number \<Rightarrow> number" where
  "jmin a b = (if a = NaN \<or> b = NaN then NaN else if jle a b then a else b)"

definition jmax :: "number \<Rightarrow> number \<Rightarrow> number" where
  "jmax a b = (if a = NaN \<or> b = NaN then NaN else if jle a b then b else a)"

text \<open>\<^verbatim>\<open>xs.reduce((a, b) => a + b, 0)\<close>\<close>

definition jsum :: "number list \<Rightarrow> number" where
  "jsum xs = foldl jadd (Num 0) xs"

text \<open>\<^verbatim>\<open>xs.push(x); if (xs.length > cap) xs.shift();\<close>\<close>

definition push_shift :: "nat \<Rightarrow> 'a list \<Rightarrow> 'a \<Rightarrow> 'a list" where
  "push_shift cap xs x = (let ys = xs @ [x] in if length ys > cap then tl ys else ys)"

text \<open>The sum of squares over the bins \<open>lo \<le> i < hi\<close>; every caller has \<open>hi \<le> length spectrum\<close>.\<close>

definition sumsq :: "real list \<Rightarrow> nat \<Rightarrow> nat \<Rightarrow> real" where
  "sumsq spectrum lo hi = (\<Sum>i\<leftarrow>[lo..<hi]. spectrum ! i * spectrum ! i)"


section \<open>Feature vector and beat result\<close>

record AdvancedAudioFeatures =
  energy :: number
  bassEnergy :: number
  midEnergy :: number
  trebleEnergy :: number
  subBassEnergy :: number
  highMidEnergy :: number
  presenceEnergy :: number
  brillianceEnergy :: number
  spectralCentroid :: number
  spectralRolloff :: number
  spectralFlux :: number
  zeroCrossingRate :: number
  tempo :: number
  beat :: bool
  kick :: bool
  snare :: bool
  hihat :: bool
  onset :: bool
  transient :: bool
  harmonicContent :: number
  percussiveContent :: number
  loudness :: number
  dynamicRange :: number
  rhythmStrength :: number
  beatConfidence :: number

text \<open>The fields of \<^verbatim>\<open>BeatResult\<close> carry the prefix \<open>br_\<close>.\<close>

record BeatResult =
  br_beat :: bool
  br_kick :: bool
  br_snare :: bool
  br_hihat :: bool
  br_confidence :: number
  br_energy :: number
  br_bassEnergy :: number


section \<open>ProfessionalAudioAnalyzer\<close>

text \<open>The Hamming window built by the constructor is never read and is left out.\<close>

record ProfessionalAudioAnalyzer =
  previousSpectrum :: "real list"
  spectralFluxBuffer :: "real list"

definition new_ProfessionalAudioAnalyzer :: ProfessionalAudioAnalyzer where
  "new_ProfessionalAudioAnalyzer = \<lparr> previousSpectrum = [], spectralFluxBuffer = [] \<rparr>"

definition calculateEnergy :: "real list \<Rightarrow> number" where
  "calculateEnergy spectrum =
     jsqrt (jdiv (Num (sumsq spectrum 0 (length spectrum))) (Num (real (length spectrum))))"

definition calculateBandEnergy :: "real list \<Rightarrow> nat \<Rightarrow> nat \<Rightarrow> number" where
  "calculateBandEnergy spectrum startBin endBin =
     (let bins = int (min endBin (length spectrum)) - int startBin;
          sum = sumsq spectrum startBin (min endBin (length spectrum))
      in jsqrt (jdiv (Num sum) (Num (real_of_int bins))))"

definition calculateSpectralCentroid :: "real list \<Rightarrow> number" where
  "calculateSpectralCentroid spectrum =
     (let weightedSum = (\<Sum>i\<leftarrow>[0..<length spectrum]. real i * spectrum ! i);
          magnitudeSum = (\<Sum>i\<leftarrow>[0..<length spectrum]. spectrum ! i)
      in if magnitudeSum > 0
         then jdiv (jdiv (Num weightedSum) (Num magnitudeSum)) (Num (real (length spectrum)))
         else Num 0)"

text \<open>
  The loop of \<^verbatim>\<open>calculateSpectralRolloff\<close>: \<open>rest\<close> are the bins from index \<open>i\<close> on,
  \<open>n\<close> is the length of the whole spectrum.
\<close>

fun rolloff_loop :: "real list \<Rightarrow> nat \<Rightarrow> real \<Rightarrow> real \<Rightarrow> nat \<Rightarrow> number" where
  "rolloff_loop [] i cumulativeEnergy rolloffThreshold n = Num 1"
| "rolloff_loop (x # rest) i cumulativeEnergy rolloffThreshold n =
     (let c = cumulativeEnergy + x * x
      in if c \<ge> rolloffThreshold then jdiv (Num (real i)) (Num (real n))
         else rolloff_loop rest (Suc i) c rolloffThreshold n)"

definition calculateSpectralRolloff :: "real list \<Rightarrow> number" where
  "calculateSpectralRolloff spectrum =
     (let totalEnergy = foldl (\<lambda>sum val. sum + val * val) 0 spectrum;
          rolloffThreshold = totalEnergy * 0.85
      in rolloff_loop spectrum 0 0 rolloffThreshold (length spectrum))"

definition calculateSpectralFlux ::
  "ProfessionalAudioAnalyzer \<Rightarrow> real list \<Rightarrow> real \<times> ProfessionalAudioAnalyzer" where
  "calculateSpectralFlux a spectrum =
     (if length (previousSpectrum a) \<noteq> length spectrum
      then (0, a\<lparr> previousSpectrum := spectrum \<rparr>)
      else
        let flux = (\<Sum>i\<leftarrow>[0..<length spectrum].
                      let diff = spectrum ! i - previousSpectrum a ! i
                      in if diff > 0 then diff else 0)
        in (flux, a\<lparr> previousSpectrum := spectrum,
                      spectralFluxBuffer := push_shift 10 (spectralFluxBuffer a) flux \<rparr>))"

definition calculateZeroCrossingRate :: "real list \<Rightarrow> number" where
  "calculateZeroCrossingRate timeData =
     (let crossings = length (filter (\<lambda>i. (timeData ! i \<ge> 0) \<noteq> (timeData ! (i - 1) \<ge> 0))
                                [1..<length timeData])
      in jdiv (Num (real crossings)) (Num (real (length timeData))))"

definition calculateHarmonicContent :: "real list \<Rightarrow> number" where
  "calculateHarmonicContent spectrum =
     (let fundamentalBin = 4;
          harmonicEnergy = (\<Sum>harmonic\<leftarrow>[2..<9].
                              let bin = fundamentalBin * harmonic
                              in if bin < length spectrum then spectrum ! bin else 0)
      in jdiv (Num harmonicEnergy) (calculateEnergy spectrum))"

definition calculatePercussiveContent :: "real list \<Rightarrow> number" where
  "calculatePercussiveContent timeData =
     (let threshold = 0.1;
          peaks = length (filter (\<lambda>i. \<bar>timeData ! i\<bar> > threshold \<and>
                                       \<bar>timeData ! i\<bar> > \<bar>timeData ! (i - 1)\<bar> \<and>
                                       \<bar>timeData ! i\<bar> > \<bar>timeData ! (i + 1)\<bar>)
                            [1..<length timeData - 1])
      in jdiv (Num (real peaks)) (Num (real (length timeData))))"

text \<open>The denominator of the A-weighting response is at least a product of four positive
  constants, so the quotient is an ordinary one.\<close>

definition aWeightingResponse :: "real \<Rightarrow> real" where
  "aWeightingResponse freq =
     (let f2 = freq * freq;
          f4 = f2 * f2;
          numerator = 12194 * 12194 * f4;
          denominator = (f2 + 20.6 * 20.6) * (f2 + 107.7 * 107.7) *
                        (f2 + 737.9 * 737.9) * (f2 + 12194 * 12194)
      in numerator / denominator)"

text \<open>\<open>getAWeightingCurve\<close> divides by \<open>length\<close> only inside its loop, where \<open>length > 0\<close>.\<close>

definition getAWeightingCurve :: "nat \<Rightarrow> real list" where
  "getAWeightingCurve len =
     map (\<lambda>i. aWeightingResponse ((real i / real len) * 22050)) [0..<len]"

definition calculateLoudness :: "real list \<Rightarrow> number" where
  "calculateLoudness spectrum =
     (let aWeights = getAWeightingCurve (length spectrum);
          weightedSum = (\<Sum>i\<leftarrow>[0..<length spectrum]. spectrum ! i * spectrum ! i * aWeights ! i)
      in jsqrt (jdiv (Num weightedSum) (Num (real (length spectrum)))))"

text \<open>
  \<^verbatim>\<open>sort((a, b) => b - a)\<close> sorts in descending order. Both percentile indices are
  below the length unless the array is empty, where both reads give \<^verbatim>\<open>undefined\<close> and
  the difference is NaN.
\<close>

definition calculateDynamicRange :: "real list \<Rightarrow> number" where
  "calculateDynamicRange spectrum =
     (let sortedSpectrum = rev (sort spectrum);
          n = length sortedSpectrum
      in if n = 0 then NaN
         else Num (sortedSpectrum ! nat \<lfloor>real n * 0.05\<rfloor> - sortedSpectrum ! nat \<lfloor>real n * 0.95\<rfloor>))"

definition detectOnset ::
  "ProfessionalAudioAnalyzer \<Rightarrow> real list \<Rightarrow> bool \<times> ProfessionalAudioAnalyzer" where
  "detectOnset a spectrum =
     (let avgFlux = sum_list (spectralFluxBuffer a) / real (max (length (spectralFluxBuffer a)) 1);
          (currentFlux, a') = calculateSpectralFlux a spectrum
      in (currentFlux > avgFlux * 1.5 \<and> currentFlux > 0.1, a'))"

definition detectTransient :: "real list \<Rightarrow> bool" where
  "detectTransient timeData =
     (let maxChange = foldl max 0 (map (\<lambda>i. \<bar>timeData ! i - timeData ! (i - 1)\<bar>)
                                      [1..<length timeData])
      in maxChange > 0.3)"

text \<open>
  \<open>analyze\<close> evaluates the fields of its object literal in source order, so the
  \<open>spectralFlux\<close> field calls \<open>calculateSpectralFlux\<close> before \<open>detectOnset\<close> calls it again.
  The parameter \<open>currentTime\<close> is not used by the body.
\<close>

definition analyze ::
  "ProfessionalAudioAnalyzer \<Rightarrow> real list \<Rightarrow> real list \<Rightarrow> real
     \<Rightarrow> AdvancedAudioFeatures \<times> ProfessionalAudioAnalyzer" where
  "analyze a frequencyData timeData currentTime =
     (let (flux, a1) = calculateSpectralFlux a frequencyData;
          (onset_flag, a2) = detectOnset a1 frequencyData
      in (\<lparr> energy = calculateEnergy frequencyData,
            bassEnergy = calculateBandEnergy frequencyData 0 8,
            midEnergy = calculateBandEnergy frequencyData 8 32,
            trebleEnergy = calculateBandEnergy frequencyData 64 128,
            subBassEnergy = calculateBandEnergy frequencyData 0 4,
            highMidEnergy = calculateBandEnergy frequencyData 32 64,
            presenceEnergy = calculateBandEnergy frequencyData 128 256,
            brillianceEnergy = calculateBandEnergy frequencyData 256 512,
            spectralCentroid = calculateSpectralCentroid frequencyData,
            spectralRolloff = calculateSpectralRolloff frequencyData,
            spectralFlux = Num flux,
            zeroCrossingRate = calculateZeroCrossingRate timeData,
            tempo = Num 0,
            beat = False,
            kick = False,
            snare = False,
            hihat = False,
            onset = onset_flag,
            transient = detectTransient timeData,
            harmonicContent = calculateHarmonicContent frequencyData,
            percussiveContent = calculatePercussiveContent timeData,
            loudness = calculateLoudness frequencyData,
            dynamicRange = calculateDynamicRange frequencyData,
            rhythmStrength = Num 0,
            beatConfidence = Num 0 \<rparr>, a2))"


section \<open>Drum detectors\<close>

text \<open>
  Each detector reads \<^verbatim>\<open>performance.now()\<close> itself; the reading is the parameter
  \<open>now\<close> of the model.
\<close>

record KickDetector =
  kickHistory :: "number list"
  lastKickTime :: real
  kickThreshold :: number

definition new_KickDetector :: KickDetector where
  "new_KickDetector = \<lparr> kickHistory = [], lastKickTime = 0, kickThreshold = Num 0.8 \<rparr>"

definition calculateSubBassEnergy :: "real list \<Rightarrow> number" where
  "calculateSubBassEnergy spectrum =
     (let subBassRange = min 8 (length spectrum);
          sum = sumsq spectrum 1 subBassRange
      in jsqrt (jdiv (Num sum) (Num (real_of_int (int subBassRange - 1)))))"

definition KickDetector_detect ::
  "KickDetector \<Rightarrow> real list \<Rightarrow> number \<Rightarrow> real \<Rightarrow> bool \<times> KickDetector" where
  "KickDetector_detect k spectrum bassEnergy_arg now =
     (let subBass = calculateSubBassEnergy spectrum;
          history = push_shift 10 (kickHistory k) subBass;
          avgKickEnergy = jdiv (jsum history) (Num (real (length history)));
          currentTime = now;
          isKick = (jgt subBass (jmul avgKickEnergy (Num 1.4)) \<and>
                    jgt bassEnergy_arg (kickThreshold k) \<and>
                    (currentTime - lastKickTime k) > 200)
      in (isKick, k\<lparr> kickHistory := history,
                      lastKickTime := (if isKick then currentTime else lastKickTime k) \<rparr>))"

record SnareDetector =
  snareHistory :: "number list"
  lastSnareTime :: real

definition new_SnareDetector :: SnareDetector where
  "new_SnareDetector = \<lparr> snareHistory = [], lastSnareTime = 0 \<rparr>"

text \<open>\<^verbatim>\<open>Math.floor(spectrum.length * c)\<close>\<close>

definition floor_frac :: "nat \<Rightarrow> real \<Rightarrow> nat" where
  "floor_frac n c = nat \<lfloor>real n * c\<rfloor>"

definition calculateMidEnergy :: "real list \<Rightarrow> number" where
  "calculateMidEnergy spectrum =
     (let start = floor_frac (length spectrum) 0.1;
          end_bin = floor_frac (length spectrum) 0.3;
          sum = sumsq spectrum start (min end_bin (length spectrum))
      in jsqrt (jdiv (Num sum) (Num (real_of_int (int end_bin - int start)))))"

definition calculateHighMidEnergy :: "real list \<Rightarrow> number" where
  "calculateHighMidEnergy spectrum =
     (let start = floor_frac (length spectrum) 0.3;
          end_bin = floor_frac (length spectrum) 0.6;
          sum = sumsq spectrum start (min end_bin (length spectrum))
      in jsqrt (jdiv (Num sum) (Num (real_of_int (int end_bin - int start)))))"

text \<open>
  The loop of \<^verbatim>\<open>calculateNoiseComponent\<close> over the bins \<open>is\<close>, threading
  \<open>(geometricMean, arithmeticMean, count)\<close>. Inside the loop \<open>end - start > 0\<close> and the
  base of the power is above 0.001.
\<close>

fun noise_loop :: "real list \<Rightarrow> nat list \<Rightarrow> real \<Rightarrow> real \<times> real \<times> nat \<Rightarrow> real \<times> real \<times> nat" where
  "noise_loop spectrum [] width acc = acc"
| "noise_loop spectrum (i # is) width (geometricMean, arithmeticMean, count) =
     (if spectrum ! i > 0.001
      then noise_loop spectrum is width
             (geometricMean * (spectrum ! i) powr (1 / width), arithmeticMean + spectrum ! i, Suc count)
      else noise_loop spectrum is width (geometricMean, arithmeticMean, count))"

definition calculateNoiseComponent :: "real list \<Rightarrow> number" where
  "calculateNoiseComponent spectrum =
     (let start = floor_frac (length spectrum) 0.2;
          end_bin = floor_frac (length spectrum) 0.8;
          (geometricMean, arithmeticMean, count) =
             noise_loop spectrum [start..<min end_bin (length spectrum)]
               (real_of_int (int end_bin - int start)) (1, 0, 0);
          arithmeticMean' = jdiv (Num arithmeticMean) (Num (real count))
      in if count > 0 then jdiv (Num geometricMean) arithmeticMean' else Num 0)"

definition SnareDetector_detect ::
  "SnareDetector \<Rightarrow> real list \<Rightarrow> real \<Rightarrow> bool \<times> SnareDetector" where
  "SnareDetector_detect s spectrum now =
     (let midE = calculateMidEnergy spectrum;
          highMidE = calculateHighMidEnergy spectrum;
          noiseComponent = calculateNoiseComponent spectrum;
          snareCharacteristic = jmul (jadd midE highMidE) noiseComponent;
          history = push_shift 8 (snareHistory s) snareCharacteristic;
          avgSnareEnergy = jdiv (jsum history) (Num (real (length history)));
          currentTime = now;
          isSnare = (jgt snareCharacteristic (jmul avgSnareEnergy (Num 1.6)) \<and>
                     (currentTime - lastSnareTime s) > 180)
      in (isSnare, s\<lparr> snareHistory := history,
                       lastSnareTime := (if isSnare then currentTime else lastSnareTime s) \<rparr>))"

record HihatDetector =
  hihatHistory :: "number list"
  lastHihatTime :: real

definition new_HihatDetector :: HihatDetector where
  "new_HihatDetector = \<lparr> hihatHistory = [], lastHihatTime = 0 \<rparr>"

definition calculateHighFreqEnergy :: "real list \<Rightarrow> number" where
  "calculateHighFreqEnergy spectrum =
     (let start = floor_frac (length spectrum) 0.6;
          sum = sumsq spectrum start (length spectrum)
      in jsqrt (jdiv (Num sum) (Num (real_of_int (int (length spectrum) - int start)))))"

definition calculateBrillianceEnergy :: "real list \<Rightarrow> number" where
  "calculateBrillianceEnergy spectrum =
     (let start = floor_frac (length spectrum) 0.8;
          sum = sumsq spectrum start (length spectrum)
      in jsqrt (jdiv (Num sum) (Num (real_of_int (int (length spectrum) - int start)))))"

definition HihatDetector_detect ::
  "HihatDetector \<Rightarrow> real list \<Rightarrow> real \<Rightarrow> bool \<times> HihatDetector" where
  "HihatDetector_detect h spectrum now =
     (let highFreqEnergy = calculateHighFreqEnergy spectrum;
          brillianceE = calculateBrillianceEnergy spectrum;
          hihatCharacteristic = jadd highFreqEnergy (jmul brillianceE (Num 1.5));
          history = push_shift 6 (hihatHistory h) hihatCharacteristic;
          avgHihatEnergy = jdiv (jsum history) (Num (real (length history)));
          currentTime = now;
          isHihat = (jgt hihatCharacteristic (jmul avgHihatEnergy (Num 1.8)) \<and>
                     (currentTime - lastHihatTime h) > 120)
      in (isHihat, h\<lparr> hihatHistory := history,
                       lastHihatTime := (if isHihat then currentTime else lastHihatTime h) \<rparr>))"


section \<open>AdvancedBeatDetector\<close>

record AdvancedBeatDetector =
  energyBuffer :: "number list"
  bassBuffer :: "number list"
  kickDetector :: KickDetector
  snareDetector :: SnareDetector
  hihatDetector :: HihatDetector
  lastBeatTime :: real
  beatThreshold :: number
  adaptiveThreshold :: number
  minBeatInterval :: real

definition new_AdvancedBeatDetector :: AdvancedBeatDetector where
  "new_AdvancedBeatDetector =
     \<lparr> energyBuffer = [], bassBuffer = [],
       kickDetector = new_KickDetector,
       snareDetector = new_SnareDetector,
       hihatDetector = new_HihatDetector,
       lastBeatTime = 0, beatThreshold = Num 1.3, adaptiveThreshold = Num 1.3,
       minBeatInterval = 250 \<rparr>"

definition setSensitivity :: "AdvancedBeatDetector \<Rightarrow> number \<Rightarrow> AdvancedBeatDetector" where
  "setSensitivity d sensitivity =
     d\<lparr> beatThreshold := jadd (Num 1.0) (jmul (jsub (Num 1) sensitivity) (Num 0.8)) \<rparr>"

definition calculateBassEnergy :: "real list \<Rightarrow> number" where
  "calculateBassEnergy spectrum =
     (let bassRange = min 16 (length spectrum);
          sum = sumsq spectrum 0 bassRange
      in jsqrt (jdiv (Num sum) (Num (real bassRange))))"

definition calculateTotalEnergy :: "real list \<Rightarrow> number" where
  "calculateTotalEnergy spectrum =
     jsqrt (jdiv (Num (sumsq spectrum 0 (length spectrum))) (Num (real (length spectrum))))"

text \<open>The three clock readings taken by the drum detectors during one call of \<open>process\<close>.\<close>

record drum_clock =
  now_kick :: real
  now_snare :: real
  now_hihat :: real

definition process ::
  "AdvancedBeatDetector \<Rightarrow> real list \<Rightarrow> real \<Rightarrow> drum_clock
     \<Rightarrow> BeatResult \<times> AdvancedBeatDetector" where
  "process d spectrum currentTime clk =
     (let bassE = calculateBassEnergy spectrum;
          totalEnergy = calculateTotalEnergy spectrum;
          eBuf = push_shift 43 (energyBuffer d) totalEnergy;
          bBuf = push_shift 43 (bassBuffer d) bassE;
          avgEnergy = jdiv (jsum eBuf) (Num (real (length eBuf)));
          variance = jdiv (foldl (\<lambda>sum val. jadd sum (jmul (jsub val avgEnergy) (jsub val avgEnergy)))
                             (Num 0) eBuf)
                          (Num (real (length eBuf)));
          threshold = jadd (Num 1.2) (jmin (Num 0.5) (jmul variance (Num 2)));
          isBeat = (jgt totalEnergy (jmul threshold avgEnergy) \<and>
                    (currentTime - lastBeatTime d) > minBeatInterval d);
          confidence = (if isBeat
                        then jmin (Num 1)
                               (jmul (jsub (jdiv totalEnergy (jmul avgEnergy threshold)) (Num 1)) (Num 2))
                        else Num 0);
          (isKick, kd) = KickDetector_detect (kickDetector d) spectrum bassE (now_kick clk);
          (isSnare, sd) = SnareDetector_detect (snareDetector d) spectrum (now_snare clk);
          (isHihat, hh) = HihatDetector_detect (hihatDetector d) spectrum (now_hihat clk)
      in (\<lparr> br_beat = isBeat, br_kick = isKick, br_snare = isSnare, br_hihat = isHihat,
            br_confidence = confidence, br_energy = totalEnergy, br_bassEnergy = bassE \<rparr>,
          d\<lparr> energyBuffer := eBuf, bassBuffer := bBuf,
             kickDetector := kd, snareDetector := sd, hihatDetector := hh,
             lastBeatTime := (if isBeat then currentTime else lastBeatTime d),
             adaptiveThreshold := threshold \<rparr>))"


section \<open>TempoTracker\<close>

text \<open>The fields \<^verbatim>\<open>lastBeatTime\<close> and \<^verbatim>\<open>confidence\<close> carry the prefix \<open>tt_\<close>.\<close>

record TempoTracker =
  beatIntervals :: "real list"
  tt_lastBeatTime :: real
  currentTempo :: number
  tempoBuffer :: "number list"
  tt_confidence :: number

definition new_TempoTracker :: TempoTracker where
  "new_TempoTracker =
     \<lparr> beatIntervals = [], tt_lastBeatTime = 0, currentTempo = Num 0,
       tempoBuffer = [], tt_confidence = Num 0 \<rparr>"

text \<open>The median index is below the length, since the length is at least 4.\<close>

definition calculateTempo :: "TempoTracker \<Rightarrow> number \<times> TempoTracker" where
  "calculateTempo t =
     (if length (beatIntervals t) < 4 then (Num 0, t)
      else
        let sortedIntervals = sort (beatIntervals t);
            medianInterval = sortedIntervals ! (length sortedIntervals div 2);
            tempo_val = jdiv (Num 60000) (Num medianInterval);
            buf = push_shift 8 (tempoBuffer t) tempo_val
        in (jdiv (jsum buf) (Num (real (length buf))), t\<lparr> tempoBuffer := buf \<rparr>))"

definition calculateTempoConfidence :: "TempoTracker \<Rightarrow> number" where
  "calculateTempoConfidence t =
     (if length (beatIntervals t) < 4 then Num 0
      else
        let n = Num (real (length (beatIntervals t)));
            avgInterval = jdiv (jsum (map Num (beatIntervals t))) n;
            variance = jdiv (foldl (\<lambda>sum val. jadd sum (jmul (jsub val avgInterval) (jsub val avgInterval)))
                               (Num 0) (map Num (beatIntervals t))) n;
            stdDev = jsqrt variance
        in jmax (Num 0) (jsub (Num 1) (jdiv stdDev avgInterval)))"

text \<open>\<open>update\<close> reads \<^verbatim>\<open>performance.now()\<close> when the beat flag is set: the parameter \<open>now\<close>.\<close>

definition TempoTracker_update :: "TempoTracker \<Rightarrow> BeatResult \<Rightarrow> real \<Rightarrow> number \<times> TempoTracker" where
  "TempoTracker_update t beatResult now =
     (if br_beat beatResult then
        let currentTime = now;
            t1 = (if tt_lastBeatTime t > 0 then
                    let interval = currentTime - tt_lastBeatTime t;
                        bpm = jdiv (Num 60000) (Num interval)
                    in if jge bpm (Num 60) \<and> jle bpm (Num 200) then
                         let ta = t\<lparr> beatIntervals := push_shift 16 (beatIntervals t) interval \<rparr>;
                             (tempo_val, tb) = calculateTempo ta;
                             tc = tb\<lparr> currentTempo := tempo_val \<rparr>
                         in tc\<lparr> tt_confidence := calculateTempoConfidence tc \<rparr>
                       else t
                  else t);
            t2 = t1\<lparr> tt_lastBeatTime := currentTime \<rparr>
        in (currentTempo t2, t2)
      else (currentTempo t, t))"


section \<open>RhythmAnalyzer\<close>

record RhythmAnalyzer =
  rhythmPattern :: "number list"
  beatCounter :: nat

text \<open>The private field \<^verbatim>\<open>patternLength\<close> is initialised to 16 and never assigned.\<close>

definition patternLength :: nat where
  "patternLength = 16"

definition new_RhythmAnalyzer :: RhythmAnalyzer where
  "new_RhythmAnalyzer = \<lparr> rhythmPattern = [], beatCounter = 0 \<rparr>"

text \<open>
  \<^verbatim>\<open>xs[i] = v\<close> on a JavaScript array: an index at or beyond the length extends the
  array, and the slots skipped read as \<^verbatim>\<open>undefined\<close>, which is NaN in arithmetic.
\<close>

definition array_set :: "number list \<Rightarrow> nat \<Rightarrow> number \<Rightarrow> number list" where
  "array_set xs i v =
     (if i < length xs then xs[i := v] else xs @ replicate (i - length xs) NaN @ [v])"

definition RhythmAnalyzer_calculateEnergy :: "real list \<Rightarrow> number" where
  "RhythmAnalyzer_calculateEnergy spectrum =
     jsqrt (jdiv (Num (sumsq spectrum 0 (length spectrum))) (Num (real (length spectrum))))"

text \<open>Called only when the pattern has at least \<open>patternLength\<close> entries.\<close>

definition calculateRhythmStrength :: "RhythmAnalyzer \<Rightarrow> number" where
  "calculateRhythmStrength r =
     (let maxCorrelation =
            foldl (\<lambda>m lag.
                     let correlation =
                           foldl (\<lambda>c i. jadd c (jmul (rhythmPattern r ! i) (rhythmPattern r ! (i + lag))))
                                 (Num 0) [0..<patternLength - lag]
                     in jmax m correlation)
                  (Num 0) [1..<patternLength div 2]
      in jdiv maxCorrelation (Num (real patternLength)))"

definition RhythmAnalyzer_analyze :: "RhythmAnalyzer \<Rightarrow> real list \<Rightarrow> number \<times> RhythmAnalyzer" where
  "RhythmAnalyzer_analyze r spectrum =
     (let e = RhythmAnalyzer_calculateEnergy spectrum;
          r' = r\<lparr> rhythmPattern := array_set (rhythmPattern r) (beatCounter r mod patternLength) e,
                  beatCounter := beatCounter r + 1 \<rparr>
      in if length (rhythmPattern r') \<ge> patternLength
         then (calculateRhythmStrength r', r')
         else (Num 0, r'))"


section \<open>AdvancedVisualEffects\<close>

record AdvancedVisualEffects =
  flashIntensity :: number
  pulsePhase :: number
  kickPulse :: number
  snarePulse :: number
  hihatPulse :: number
  energyPulse :: number
  colorShift :: number

definition new_AdvancedVisualEffects :: AdvancedVisualEffects where
  "new_AdvancedVisualEffects =
     \<lparr> flashIntensity = Num 0, pulsePhase = Num 0, kickPulse = Num 0, snarePulse = Num 0,
       hihatPulse = Num 0, energyPulse = Num 0, colorShift = Num 0 \<rparr>"

definition AdvancedVisualEffects_update ::
  "AdvancedVisualEffects \<Rightarrow> AdvancedAudioFeatures \<Rightarrow> AdvancedVisualEffects" where
  "AdvancedVisualEffects_update v audioFeatures =
     (let tempoMultiplier = (if jgt (tempo audioFeatures) (Num 0)
                             then jdiv (tempo audioFeatures) (Num 120) else Num 1);
          phase = jadd (pulsePhase v) (jmul (Num 0.1) tempoMultiplier)
      in \<lparr> flashIntensity = (if beat audioFeatures
                             then jmin (Num 1) (jmul (energy audioFeatures) (beatConfidence audioFeatures))
                             else jmul (flashIntensity v) (Num 0.85)),
           pulsePhase = (if jgt phase (Num (pi * 2)) then jsub phase (Num (pi * 2)) else phase),
           kickPulse = (if kick audioFeatures then Num 1.0 else jmul (kickPulse v) (Num 0.8)),
           snarePulse = (if snare audioFeatures then Num 1.0 else jmul (snarePulse v) (Num 0.7)),
           hihatPulse = (if hihat audioFeatures then Num 1.0 else jmul (hihatPulse v) (Num 0.6)),
           energyPulse = energy audioFeatures,
           colorShift = jmul (spectralCentroid audioFeatures) (Num 360) \<rparr>)"


section \<open>AudioVisualizer: one analysis tick\<close>

datatype beat_type = Kick_type | Snare_type | General_type

record BeatEvent =
  be_time :: real
  be_energy :: number
  be_confidence :: number
  be_type :: beat_type

record OnsetEvent =
  oe_time :: real
  oe_spectralFlux :: number
  oe_frequency :: number

text \<open>The analysis state of the visualizer; canvas, particles and styling are not modelled.\<close>

record AudioVisualizer =
  audioFeatures :: AdvancedAudioFeatures
  audioAnalyzer :: ProfessionalAudioAnalyzer
  beatDetector :: AdvancedBeatDetector
  tempoTracker :: TempoTracker
  rhythmAnalyzer :: RhythmAnalyzer
  visualEffects :: AdvancedVisualEffects
  energyHistory :: "number list"
  beatHistory :: "BeatEvent list"
  onsetHistory :: "OnsetEvent list"

definition zeroFeatures :: AdvancedAudioFeatures where
  "zeroFeatures =
     \<lparr> energy = Num 0, bassEnergy = Num 0, midEnergy = Num 0, trebleEnergy = Num 0,
       subBassEnergy = Num 0, highMidEnergy = Num 0, presenceEnergy = Num 0,
       brillianceEnergy = Num 0, spectralCentroid = Num 0, spectralRolloff = Num 0,
       spectralFlux = Num 0, zeroCrossingRate = Num 0, tempo = Num 0,
       beat = False, kick = False, snare = False, hihat = False,
       onset = False, transient = False, harmonicContent = Num 0, percussiveContent = Num 0,
       loudness = Num 0, dynamicRange = Num 0, rhythmStrength = Num 0, beatConfidence = Num 0 \<rparr>"

definition new_AudioVisualizer :: AudioVisualizer where
  "new_AudioVisualizer =
     \<lparr> audioFeatures = zeroFeatures,
       audioAnalyzer = new_ProfessionalAudioAnalyzer,
       beatDetector = new_AdvancedBeatDetector,
       tempoTracker = new_TempoTracker,
       rhythmAnalyzer = new_RhythmAnalyzer,
       visualEffects = new_AdvancedVisualEffects,
       energyHistory = [], beatHistory = [], onsetHistory = [] \<rparr>"

definition resetAudioFeatures :: "AudioVisualizer \<Rightarrow> AudioVisualizer" where
  "resetAudioFeatures v = v\<lparr> audioFeatures := zeroFeatures \<rparr>"

text \<open>The readings of \<^verbatim>\<open>performance.now()\<close> that one tick can take, in call order.\<close>

record tick_clock =
  now_process :: real
  now_drums :: drum_clock
  now_tempo :: real
  now_beatHistory :: real
  now_onsetHistory :: real

definition updateHistories :: "AudioVisualizer \<Rightarrow> tick_clock \<Rightarrow> AudioVisualizer" where
  "updateHistories v clk =
     (let f = audioFeatures v;
          v1 = v\<lparr> energyHistory := push_shift 120 (energyHistory v) (energy f) \<rparr>;
          v2 = (if beat f
                then v1\<lparr> beatHistory := push_shift 32 (beatHistory v1)
                            \<lparr> be_time = now_beatHistory clk, be_energy = energy f,
                              be_confidence = beatConfidence f,
                              be_type = (if kick f then Kick_type
                                         else if snare f then Snare_type else General_type) \<rparr> \<rparr>
                else v1)
      in if onset f
         then v2\<lparr> onsetHistory := push_shift 16 (onsetHistory v2)
                     \<lparr> oe_time = now_onsetHistory clk, oe_spectralFlux = spectralFlux f,
                       oe_frequency = spectralCentroid f \<rparr> \<rparr>
         else v2)"

text \<open>
  \<open>processAudioData\<close> takes the two byte arrays of the analyser node. The conversion loop
  runs over the indices of \<open>frequencyData\<close>: a write beyond the end of \<open>floatTimeData\<close> is
  dropped, and entries of \<open>floatTimeData\<close> the loop does not reach stay 0. The CSS and
  particle effects triggered at the end of a non-silent tick are presentation only.
\<close>

definition processAudioData ::
  "AudioVisualizer \<Rightarrow> 8 word list \<Rightarrow> 8 word list \<Rightarrow> tick_clock \<Rightarrow> AudioVisualizer" where
  "processAudioData v frequencyData timeData clk =
     (let floatFreqData = map (\<lambda>b. real (unat b) / 255.0) frequencyData;
          floatTimeData = map (\<lambda>b. (real (unat b) - 128) / 128.0)
                              (take (length frequencyData) timeData)
                          @ replicate (length timeData - length frequencyData) 0;
          energyLevel = jdiv (Num (foldl (\<lambda>sum val. sum + val) 0 floatFreqData))
                             (Num (real (length floatFreqData)))
      in if jlt energyLevel (Num 0.001) then resetAudioFeatures v
         else
           let currentTime = now_process clk;
               (features, an) = analyze (audioAnalyzer v) floatFreqData floatTimeData currentTime;
               (beatResult, bd) = process (beatDetector v) floatFreqData currentTime (now_drums clk);
               f1 = features\<lparr> beat := br_beat beatResult, kick := br_kick beatResult,
                              snare := br_snare beatResult, hihat := br_hihat beatResult,
                              beatConfidence := br_confidence beatResult \<rparr>;
               (tempo_val, tt) = TempoTracker_update (tempoTracker v) beatResult (now_tempo clk);
               f2 = f1\<lparr> tempo := tempo_val \<rparr>;
               (strength, ra) = RhythmAnalyzer_analyze (rhythmAnalyzer v) floatFreqData;
               f3 = f2\<lparr> rhythmStrength := strength \<rparr>;
               v1 = v\<lparr> audioFeatures := f3, audioAnalyzer := an, beatDetector := bd,
                       tempoTracker := tt, rhythmAnalyzer := ra \<rparr>;
               v2 = updateHistories v1 clk
           in v2\<lparr> visualEffects := AdvancedVisualEffects_update (visualEffects v2) (audioFeatures v2) \<rparr>)"


section \<open>Runs of calls\<close>

text \<open>
  A run of \<open>process\<close> from a detector state: the \<open>k\<close>-th call receives the spectrum and the
  timestamp of the \<open>k\<close>-th input and the clock readings \<open>clk k\<close>.
\<close>

fun process_run ::
  "AdvancedBeatDetector \<Rightarrow> (nat \<Rightarrow> drum_clock) \<Rightarrow> nat \<Rightarrow> (real list \<times> real) list
     \<Rightarrow> BeatResult list" where
  "process_run d clk k [] = []"
| "process_run d clk k ((spectrum, t) # rest) =
     fst (process d spectrum t (clk k))
       # process_run (snd (process d spectrum t (clk k))) clk (Suc k) rest"

fun process_state ::
  "AdvancedBeatDetector \<Rightarrow> (nat \<Rightarrow> drum_clock) \<Rightarrow> nat \<Rightarrow> (real list \<times> real) list
     \<Rightarrow> AdvancedBeatDetector" where
  "process_state d clk k [] = d"
| "process_state d clk k ((spectrum, t) # rest) =
     process_state (snd (process d spectrum t (clk k))) clk (Suc k) rest"

text \<open>A run of \<open>TempoTracker.update\<close>: each call with its beat result and its clock reading.\<close>

fun update_run :: "TempoTracker \<Rightarrow> (BeatResult \<times> real) list \<Rightarrow> number list" where
  "update_run t [] = []"
| "update_run t ((beatResult, now) # rest) =
     fst (TempoTracker_update t beatResult now)
       # update_run (snd (TempoTracker_update t beatResult now)) rest"

fun update_state :: "TempoTracker \<Rightarrow> (BeatResult \<times> real) list \<Rightarrow> TempoTracker" where
  "update_state t [] = t"
| "update_state t ((beatResult, now) # rest) =
     update_state (snd (TempoTracker_update t beatResult now)) rest"

section \<open>Auxiliary notions for the properties\<close>

text \<open>
  The body of \<open>analyze\<close> contains no \<^verbatim>\<open>throw\<close> and calls nothing that throws: a call
  always returns. \<open>analyze_call\<close> records that outcome.
\<close>

datatype 'a outcome = is_Returned: Returned 'a | is_Rejected: Rejected string

definition analyze_call ::
  "ProfessionalAudioAnalyzer \<Rightarrow> real list \<Rightarrow> real list \<Rightarrow> real
     \<Rightarrow> (AdvancedAudioFeatures \<times> ProfessionalAudioAnalyzer) outcome" where
  "analyze_call a frequencyData timeData currentTime =
     Returned (analyze a frequencyData timeData currentTime)"

text \<open>The fields of a feature vector that \<open>analyze\<close> computes from the frequency buffer.\<close>

definition frequency_features :: "AdvancedAudioFeatures \<Rightarrow> number list" where
  "frequency_features f =
     [energy f, bassEnergy f, subBassEnergy f, midEnergy f, highMidEnergy f,
      trebleEnergy f, presenceEnergy f, brillianceEnergy f, spectralCentroid f,
      spectralRolloff f, spectralFlux f, harmonicContent f, loudness f, dynamicRange f]"

text \<open>Clocks for concrete runs: every reading of a tick is the same instant.\<close>

definition drums_at :: "real \<Rightarrow> drum_clock" where
  "drums_at t = \<lparr> now_kick = t, now_snare = t, now_hihat = t \<rparr>"

definition tick_at :: "real \<Rightarrow> tick_clock" where
  "tick_at t = \<lparr> now_process = t, now_drums = drums_at t, now_tempo = t,
                 now_beatHistory = t, now_onsetHistory = t \<rparr>"

text \<open>
  Clocks for concrete runs of \<open>process\<close>, by call number: every call reads \<open>t\<close>; the
  calls read 1000.2, 1100.5 and 1301; call \<open>k\<close> reads \<open>1000 + 150 k\<close>.
\<close>

definition steady_clock :: "real \<Rightarrow> nat \<Rightarrow> drum_clock" where
  "steady_clock t k = drums_at t"

definition lagging_clock :: "nat \<Rightarrow> drum_clock" where
  "lagging_clock k = drums_at (if k = 0 then 1000.2 else if k = 1 then 1100.5 else 1301)"

definition paced_clock :: "nat \<Rightarrow> drum_clock" where
  "paced_clock k = drums_at (1000 + 150 * real k)"

text \<open>A beat of energy 1 detected with confidence 6/17, and no drum event.\<close>

definition ordinary_beat :: AdvancedAudioFeatures where
  "ordinary_beat = zeroFeatures\<lparr> beat := True, energy := Num 1, beatConfidence := Num (6 / 17) \<rparr>"

text \<open>A feature vector on which every event flag is set, with energy and confidence 1.\<close>

definition all_events :: AdvancedAudioFeatures where
  "all_events = zeroFeatures\<lparr> beat := True, kick := True, snare := True, hihat := True,
                              energy := Num 1, beatConfidence := Num 1 \<rparr>"


text \<open>The core fields of a beat result: everything but the three drum flags.\<close>

definition beat_fields :: "BeatResult \<Rightarrow> bool \<times> number \<times> number \<times> number" where
  "beat_fields r = (br_beat r, br_confidence r, br_energy r, br_bassEnergy r)"

text \<open>A beat result with only the beat flag set, as input of the tempo tracker.\<close>

definition beat_only :: BeatResult where
  "beat_only = \<lparr> br_beat = True, br_kick = False, br_snare = False, br_hihat = False,
                 br_confidence = Num 0, br_energy = Num 0, br_bassEnergy = Num 0 \<rparr>"

text \<open>Two spectra of ten bins: silence and full scale.\<close>

definition quiet :: "real list" where
  "quiet = [0, 0, 0, 0, 0, 0, 0, 0, 0, 0]"

definition loud :: "real list" where
  "loud = [1, 1, 1, 1, 1, 1, 1, 1, 1, 1]"

text \<open>
  The quantities of the beat test of \<open>process\<close>, as functions of the energy buffer after
  the push: running average, variance and adaptive threshold.
\<close>

definition avg_of :: "number list \<Rightarrow> number" where
  "avg_of buf = jdiv (jsum buf) (Num (real (length buf)))"

definition variance_of :: "number list \<Rightarrow> number" where
  "variance_of buf =
     jdiv (foldl (\<lambda>sum val. jadd sum (jmul (jsub val (avg_of buf)) (jsub val (avg_of buf))))
                 (Num 0) buf)
          (Num (real (length buf)))"

definition threshold_of :: "number list \<Rightarrow> number" where
  "threshold_of buf = jadd (Num 1.2) (jmin (Num 0.5) (jmul (variance_of buf) (Num 2)))"

text \<open>Invariants of the buffers: energies are NaN or non-negative, tempi lie in 60..200.\<close>

definition nonneg_or_nan :: "number \<Rightarrow> bool" where
  "nonneg_or_nan x = (case x of Num r \<Rightarrow> 0 \<le> r | NaN \<Rightarrow> True | _ \<Rightarrow> False)"

definition in_bpm_range :: "number \<Rightarrow> bool" where
  "in_bpm_range x = (case x of Num r \<Rightarrow> 60 \<le> r \<and> r \<le> 200 | _ \<Rightarrow> False)"

definition tempo_inv :: "TempoTracker \<Rightarrow> bool" where
  "tempo_inv t = (list_all (\<lambda>x. 300 \<le> x \<and> x \<le> 1000) (beatIntervals t) \<and>
                  list_all in_bpm_range (tempoBuffer t) \<and>
                  (if length (beatIntervals t) < 4 then currentTempo t = Num 0
                   else in_bpm_range (currentTempo t)))"

text \<open>
  The flags of one kind of event along a run of a detector: \<open>step k st x\<close> is the \<open>k\<close>-th
  call, on input \<open>x\<close> in state \<open>st\<close>, and yields the flag and the next state.
\<close>

fun event_run ::
  "(nat \<Rightarrow> 'st \<Rightarrow> 'inp \<Rightarrow> bool \<times> 'st) \<Rightarrow> nat \<Rightarrow> 'st \<Rightarrow> 'inp list \<Rightarrow> bool list" where
  "event_run step k st [] = []"
| "event_run step k st (x # xs) =
     fst (step k st x) # event_run step (Suc k) (snd (step k st x)) xs"


section \<open>Properties\<close>

lemmas feature_defs =
  calculateEnergy_def sumsq_def inf_of_sign_def calculateBandEnergy_def
  calculateSpectralCentroid_def calculateSpectralRolloff_def
  calculateZeroCrossingRate_def detectTransient_def calculateHarmonicContent_def
  calculatePercussiveContent_def calculateLoudness_def calculateDynamicRange_def
  getAWeightingCurve_def aWeightingResponse_def

lemmas flux_defs =
  calculateSpectralFlux_def detectOnset_def push_shift_def new_ProfessionalAudioAnalyzer_def

subsection \<open>Onset detection\<close>

text \<open>
  A second flux computation on the same spectrum compares the spectrum with itself, so
  it yields 0; that is the flux \<open>detectOnset\<close> sees, and the onset flag of \<open>analyze\<close> is
  never set.
\<close>

lemma flux_twice: "fst (calculateSpectralFlux (snd (calculateSpectralFlux a s)) s) = 0"
  by (simp add: calculateSpectralFlux_def Let_def)

lemma analyze_onset_never: "\<not> onset (fst (analyze a frequencyData timeData t))"
  using flux_twice[of a frequencyData]
  by (simp add: analyze_def detectOnset_def Let_def case_prod_beta)

text \<open>
  C2 (the onset flag is true exactly when the tick's spectral flux exceeds 1.5 times the
  rolling average of the stored flux values and exceeds 0.1) fails on the code. After a
  first call on the spectrum \<open>[0]\<close> the flux buffer is \<open>[0]\<close>; the second call on \<open>[1]\<close>
  reports spectral flux 1, above 1.5 times the average 0 and above 0.1, and yet the
  onset flag is false.
\<close>

theorem C2_onset_missed:
  "spectralFluxBuffer (snd (analyze new_ProfessionalAudioAnalyzer [0] [0] 0)) = [0] \<and>
   spectralFlux (fst (analyze (snd (analyze new_ProfessionalAudioAnalyzer [0] [0] 0)) [1] [0] 16)) = Num 1 \<and>
   \<not> onset (fst (analyze (snd (analyze new_ProfessionalAudioAnalyzer [0] [0] 0)) [1] [0] 16))"
  by (simp add: analyze_def flux_defs Let_def case_prod_beta)

subsection \<open>Zero-length input\<close>



subsection \<open>Buffers of different lengths\<close>

text \<open>
  C8 as stated (a call with buffers of mismatching lengths is rejected with an error)
  fails: on a frequency buffer of length 1 and an empty time buffer the call returns a
  feature vector, with energy 1 and a NaN zero-crossing rate.
\<close>

theorem C8_mismatch_not_rejected:
  "\<not> is_Rejected (analyze_call new_ProfessionalAudioAnalyzer [1] [] 0) \<and>
   energy (fst (analyze new_ProfessionalAudioAnalyzer [1] [] 0)) = Num 1 \<and>
   zeroCrossingRate (fst (analyze new_ProfessionalAudioAnalyzer [1] [] 0)) = NaN"
  by (simp add: analyze_call_def analyze_def feature_defs flux_defs Let_def case_prod_beta)

text \<open>
  C8, amended: \<open>analyze\<close> compares no lengths and always returns. The fields derived from
  the frequency buffer and the retained analyzer state do not depend on the time buffer,
  and the zero-crossing rate, percussive content and transient flag depend on the time
  buffer alone: neither buffer is truncated to the other.
\<close>

theorem C8_buffers_independent:
  "is_Returned (analyze_call a frequencyData timeData t) \<and>
   frequency_features (fst (analyze a frequencyData timeData t)) =
     frequency_features (fst (analyze a frequencyData timeData' t')) \<and>
   snd (analyze a frequencyData timeData t) = snd (analyze a frequencyData timeData' t') \<and>
   zeroCrossingRate (fst (analyze a frequencyData timeData t)) =
     zeroCrossingRate (fst (analyze a' frequencyData' timeData t')) \<and>
   percussiveContent (fst (analyze a frequencyData timeData t)) =
     percussiveContent (fst (analyze a' frequencyData' timeData t')) \<and>
   transient (fst (analyze a frequencyData timeData t)) =
     transient (fst (analyze a' frequencyData' timeData t'))"
  by (simp add: analyze_call_def analyze_def frequency_features_def Let_def case_prod_beta)

subsection \<open>Silence\<close>

lemma foldl_plus_sum_list: "foldl (\<lambda>sum val. sum + val) (s::real) xs = s + sum_list xs"
  by (induction xs arbitrary: s) simp_all

text \<open>
  C6: when the mean of the normalised frequency magnitudes is below 0.001, one tick of
  \<open>processAudioData\<close> replaces the feature vector by the all-zero vector (every number 0,
  every flag false) and changes nothing else: analyzer, beat detector, tempo tracker and
  rhythm analyzer keep their state and history buffers.
\<close>

theorem C6_silence_resets_features_only:
  assumes "frequencyData \<noteq> []"
    and "(\<Sum>b\<leftarrow>frequencyData. real (unat b) / 255) / real (length frequencyData) < 0.001"
  shows "processAudioData v frequencyData timeData clk =
           v\<lparr> audioFeatures :=
               \<lparr> energy = Num 0, bassEnergy = Num 0, midEnergy = Num 0, trebleEnergy = Num 0,
                 subBassEnergy = Num 0, highMidEnergy = Num 0, presenceEnergy = Num 0,
                 brillianceEnergy = Num 0, spectralCentroid = Num 0, spectralRolloff = Num 0,
                 spectralFlux = Num 0, zeroCrossingRate = Num 0, tempo = Num 0,
                 beat = False, kick = False, snare = False, hihat = False,
                 onset = False, transient = False, harmonicContent = Num 0,
                 percussiveContent = Num 0, loudness = Num 0, dynamicRange = Num 0,
                 rhythmStrength = Num 0, beatConfidence = Num 0 \<rparr> \<rparr>"
  using assms
  by (simp add: processAudioData_def Let_def resetAudioFeatures_def zeroFeatures_def
      foldl_plus_sum_list)

theorem C6_silence_witness:
  "[0, 0 :: 8 word] \<noteq> [] \<and>
   (\<Sum>b\<leftarrow>[0, 0 :: 8 word]. real (unat b) / 255) / real (length [0, 0 :: 8 word]) < 0.001 \<and>
   beatDetector (processAudioData new_AudioVisualizer [0, 0] [128, 128] (tick_at 1000)) =
     new_AdvancedBeatDetector \<and>
   energy (audioFeatures (processAudioData new_AudioVisualizer [0, 0] [128, 128] (tick_at 1000))) = Num 0"
  using C6_silence_resets_features_only[of "[0, 0]" new_AudioVisualizer "[128, 128]" "tick_at 1000"]
  by (simp add: new_AudioVisualizer_def)

subsection \<open>Pulse decay\<close>

lemma kick_decay:
  "\<forall>f\<in>set fs. \<not> kick f \<Longrightarrow> kickPulse v = Num 1 \<Longrightarrow>
   kickPulse (foldl AdvancedVisualEffects_update v fs) = Num (0.8 ^ length fs)"
  by (induction fs rule: rev_induct) (simp_all add: AdvancedVisualEffects_update_def Let_def)

lemma snare_decay:
  "\<forall>f\<in>set fs. \<not> snare f \<Longrightarrow> snarePulse v = Num 1 \<Longrightarrow>
   snarePulse (foldl AdvancedVisualEffects_update v fs) = Num (0.7 ^ length fs)"
  by (induction fs rule: rev_induct) (simp_all add: AdvancedVisualEffects_update_def Let_def)

lemma hihat_decay:
  "\<forall>f\<in>set fs. \<not> hihat f \<Longrightarrow> hihatPulse v = Num 1 \<Longrightarrow>
   hihatPulse (foldl AdvancedVisualEffects_update v fs) = Num (0.6 ^ length fs)"
  by (induction fs rule: rev_induct) (simp_all add: AdvancedVisualEffects_update_def Let_def)

lemma flash_decay_from:
  "\<forall>f\<in>set fs. \<not> beat f \<Longrightarrow> flashIntensity v = Num x \<Longrightarrow>
   flashIntensity (foldl AdvancedVisualEffects_update v fs) = Num (x * 0.85 ^ length fs)"
  by (induction fs rule: rev_induct) (simp_all add: AdvancedVisualEffects_update_def Let_def)

lemma flash_on_beat:
  "beat f0 \<Longrightarrow> energy f0 = Num e \<Longrightarrow> beatConfidence f0 = Num c \<Longrightarrow>
   flashIntensity (AdvancedVisualEffects_update v f0) = Num (min 1 (e * c))"
  by (simp add: AdvancedVisualEffects_update_def Let_def jmin_def min_def)

text \<open>
  C9 as stated fails for the flash intensity, which a beat does not set to 1.0: a beat of
  energy 1 and confidence 6/17 sets it to 6/17, and one call without a beat later it is
  0.3, not 0.85.
\<close>

theorem C9_flash_not_set_to_one:
  "beat ordinary_beat \<and> \<not> beat zeroFeatures \<and>
   flashIntensity (AdvancedVisualEffects_update new_AdvancedVisualEffects ordinary_beat)
     = Num (6 / 17) \<and>
   flashIntensity (foldl AdvancedVisualEffects_update
                     (AdvancedVisualEffects_update new_AdvancedVisualEffects ordinary_beat)
                     [zeroFeatures]) = Num 0.3 \<and>
   (0.3::real) \<noteq> 0.85 ^ length [zeroFeatures]"
  by (simp add: ordinary_beat_def zeroFeatures_def AdvancedVisualEffects_update_def Let_def
      jmin_def new_AdvancedVisualEffects_def)

text \<open>
  C9, amended: a kick, snare or hihat event sets its pulse to 1.0, and after N further
  calls of \<open>update\<close> without that event the pulse equals 0.8, 0.7 or 0.6 to the power N.
  A beat sets the flash intensity to min(1, energy * beatConfidence), and after N further
  calls without a beat the flash intensity equals that value times 0.85 to the power N,
  which is 0.85 to the power N when energy * beatConfidence is at least 1. No pulse is
  below 0, the flash given a non-negative product. Numbers are reals here, so the powers
  are exact.
\<close>

theorem C9_pulse_decay:
  "(kick f0 \<and> (\<forall>f\<in>set fs. \<not> kick f) \<longrightarrow>
      kickPulse (foldl AdvancedVisualEffects_update (AdvancedVisualEffects_update v f0) fs)
        = Num (0.8 ^ length fs)) \<and>
   (snare f0 \<and> (\<forall>f\<in>set fs. \<not> snare f) \<longrightarrow>
      snarePulse (foldl AdvancedVisualEffects_update (AdvancedVisualEffects_update v f0) fs)
        = Num (0.7 ^ length fs)) \<and>
   (hihat f0 \<and> (\<forall>f\<in>set fs. \<not> hihat f) \<longrightarrow>
      hihatPulse (foldl AdvancedVisualEffects_update (AdvancedVisualEffects_update v f0) fs)
        = Num (0.6 ^ length fs)) \<and>
   (beat f0 \<and> energy f0 = Num e \<and> beatConfidence f0 = Num c \<and> (\<forall>f\<in>set fs. \<not> beat f) \<longrightarrow>
      flashIntensity (AdvancedVisualEffects_update v f0) = Num (min 1 (e * c)) \<and>
      flashIntensity (foldl AdvancedVisualEffects_update (AdvancedVisualEffects_update v f0) fs)
        = Num (min 1 (e * c) * 0.85 ^ length fs)) \<and>
   (beat f0 \<and> energy f0 = Num e \<and> beatConfidence f0 = Num c \<and> 1 \<le> e * c \<and>
    (\<forall>f\<in>set fs. \<not> beat f) \<longrightarrow>
      flashIntensity (foldl AdvancedVisualEffects_update (AdvancedVisualEffects_update v f0) fs)
        = Num (0.85 ^ length fs)) \<and>
   (0::real) \<le> 0.8 ^ length fs \<and> (0::real) \<le> 0.7 ^ length fs \<and>
   (0::real) \<le> 0.6 ^ length fs \<and>
   (0 \<le> e * c \<longrightarrow> 0 \<le> min 1 (e * c) * 0.85 ^ length fs)"
proof -
  have k: "kick f0 \<Longrightarrow> kickPulse (AdvancedVisualEffects_update v f0) = Num 1"
    and s: "snare f0 \<Longrightarrow> snarePulse (AdvancedVisualEffects_update v f0) = Num 1"
    and h: "hihat f0 \<Longrightarrow> hihatPulse (AdvancedVisualEffects_update v f0) = Num 1"
    by (simp_all add: AdvancedVisualEffects_update_def Let_def)
  have drums: "(kick f0 \<and> (\<forall>f\<in>set fs. \<not> kick f) \<longrightarrow>
      kickPulse (foldl AdvancedVisualEffects_update (AdvancedVisualEffects_update v f0) fs)
        = Num (0.8 ^ length fs)) \<and>
   (snare f0 \<and> (\<forall>f\<in>set fs. \<not> snare f) \<longrightarrow>
      snarePulse (foldl AdvancedVisualEffects_update (AdvancedVisualEffects_update v f0) fs)
        = Num (0.7 ^ length fs)) \<and>
   (hihat f0 \<and> (\<forall>f\<in>set fs. \<not> hihat f) \<longrightarrow>
      hihatPulse (foldl AdvancedVisualEffects_update (AdvancedVisualEffects_update v f0) fs)
        = Num (0.6 ^ length fs))"
    using k s h by (simp add: kick_decay snare_decay hihat_decay)
  have fl: "beat f0 \<and> energy f0 = Num e \<and> beatConfidence f0 = Num c \<and> (\<forall>f\<in>set fs. \<not> beat f) \<longrightarrow>
      flashIntensity (AdvancedVisualEffects_update v f0) = Num (min 1 (e * c)) \<and>
      flashIntensity (foldl AdvancedVisualEffects_update (AdvancedVisualEffects_update v f0) fs)
        = Num (min 1 (e * c) * 0.85 ^ length fs)"
    using flash_on_beat[of f0 e c v] flash_decay_from[of fs "AdvancedVisualEffects_update v f0" "min 1 (e * c)"]
    by blast
  have fl1: "beat f0 \<and> energy f0 = Num e \<and> beatConfidence f0 = Num c \<and> 1 \<le> e * c \<and>
    (\<forall>f\<in>set fs. \<not> beat f) \<longrightarrow>
      flashIntensity (foldl AdvancedVisualEffects_update (AdvancedVisualEffects_update v f0) fs)
        = Num (0.85 ^ length fs)"
    using fl by (auto simp: min_def)
  have nn: "0 \<le> e * c \<longrightarrow> 0 \<le> min 1 (e * c) * 0.85 ^ length fs"
    by (simp add: min_def)
  show ?thesis
    using drums fl fl1 nn by simp
qed

theorem C9_pulse_decay_witness:
  "kick all_events \<and> snare all_events \<and> hihat all_events \<and> beat all_events \<and>
   energy all_events = Num 1 \<and> beatConfidence all_events = Num 1 \<and>
   (1::real) \<le> 1 * 1 \<and> (0::real) \<le> 1 * 1 \<and>
   \<not> kick zeroFeatures \<and> \<not> snare zeroFeatures \<and> \<not> hihat zeroFeatures \<and>
   \<not> beat zeroFeatures \<and>
   kickPulse (foldl AdvancedVisualEffects_update
                (AdvancedVisualEffects_update new_AdvancedVisualEffects all_events)
                [zeroFeatures, zeroFeatures]) = Num 0.64 \<and>
   snarePulse (foldl AdvancedVisualEffects_update
                (AdvancedVisualEffects_update new_AdvancedVisualEffects all_events)
                [zeroFeatures, zeroFeatures]) = Num 0.49 \<and>
   hihatPulse (foldl AdvancedVisualEffects_update
                (AdvancedVisualEffects_update new_AdvancedVisualEffects all_events)
                [zeroFeatures, zeroFeatures]) = Num 0.36 \<and>
   flashIntensity (AdvancedVisualEffects_update new_AdvancedVisualEffects all_events) = Num 1 \<and>
   flashIntensity (foldl AdvancedVisualEffects_update
                (AdvancedVisualEffects_update new_AdvancedVisualEffects all_events)
                [zeroFeatures, zeroFeatures]) = Num 0.7225"
proof -
  have a: "kick all_events \<and> snare all_events \<and> hihat all_events \<and> beat all_events"
    "energy all_events = Num 1" "beatConfidence all_events = Num 1"
    by (simp_all add: all_events_def zeroFeatures_def)
  have c: "\<not> kick zeroFeatures \<and> \<not> snare zeroFeatures \<and> \<not> hihat zeroFeatures \<and>
           \<not> beat zeroFeatures"
    by (simp add: zeroFeatures_def)
  show ?thesis
    using a c
      C9_pulse_decay[of all_events "[zeroFeatures, zeroFeatures]" new_AdvancedVisualEffects 1 1]
    by (simp add: power2_eq_square)
qed

subsection \<open>Confidence without a beat\<close>

text \<open>
  C10: whenever \<open>process\<close> returns a result whose beat flag is false, the confidence of
  that result is exactly 0.
\<close>

theorem C10_no_beat_zero_confidence:
  "\<not> br_beat (fst (process d spectrum t clk)) \<Longrightarrow>
   br_confidence (fst (process d spectrum t clk)) = Num 0"
  by (auto simp add: process_def Let_def case_prod_beta)

theorem C10_no_beat_zero_confidence_witness:
  "\<not> br_beat (fst (process new_AdvancedBeatDetector [0] 0 (drums_at 0))) \<and>
   br_confidence (fst (process new_AdvancedBeatDetector [0] 0 (drums_at 0))) = Num 0"
proof -
  have h: "\<not> br_beat (fst (process new_AdvancedBeatDetector [0] 0 (drums_at 0)))"
    by (simp add: process_def Let_def case_prod_beta new_AdvancedBeatDetector_def)
  show ?thesis
    using h C10_no_beat_zero_confidence[OF h] by simp
qed

subsection \<open>Lists and numbers\<close>

lemma set_push_shift: "set (push_shift cap xs x) \<subseteq> insert x (set xs)"
  by (cases xs) (auto simp: push_shift_def Let_def dest: list.set_sel(2))

lemma list_all_push_shift: "list_all P xs \<Longrightarrow> P x \<Longrightarrow> list_all P (push_shift cap xs x)"
  using set_push_shift[of cap xs x] by (auto simp: list_all_iff)

lemma push_shift_nonempty: "cap > 0 \<Longrightarrow> push_shift cap xs x \<noteq> []"
  by (cases xs) (auto simp: push_shift_def Let_def)

lemma last_push_shift: "cap > 0 \<Longrightarrow> last (push_shift cap xs x) = x"
  by (cases xs) (auto simp: push_shift_def Let_def last_tl)

lemma jsum_Num: "foldl jadd (Num s) (map Num rs) = Num (s + sum_list rs)"
  by (induction rs arbitrary: s) (simp_all add: add.assoc)

lemma sumsq_nonneg: "0 \<le> sumsq s lo hi"
  unfolding sumsq_def by (rule sum_list_nonneg) auto

lemma totalEnergy_nonneg_or_nan: "nonneg_or_nan (calculateTotalEnergy s)"
  using sumsq_nonneg[of s 0 "length s"]
  by (simp add: calculateTotalEnergy_def nonneg_or_nan_def inf_of_sign_def sumsq_def)

lemma foldl_jadd_NaN: "foldl jadd NaN bs = NaN"
  by (induction bs) simp_all

lemma jsum_reals:
  "list_all nonneg_or_nan bs \<Longrightarrow> foldl jadd (Num s) bs \<noteq> NaN \<Longrightarrow>
   \<exists>rs. bs = map Num rs \<and> list_all (\<lambda>r. 0 \<le> r) rs"
proof (induction bs arbitrary: s)
  case Nil
  then show ?case by simp
next
  case (Cons b bs)
  from Cons.prems(1) have "b = NaN \<or> (\<exists>r. b = Num r \<and> 0 \<le> r)"
    by (cases b) (simp_all add: nonneg_or_nan_def)
  with Cons.prems(2) obtain r where r: "b = Num r" "0 \<le> r"
    by (auto simp: foldl_jadd_NaN)
  with Cons.prems have "list_all nonneg_or_nan bs" "foldl jadd (Num (s + r)) bs \<noteq> NaN" by simp_all
  from Cons.IH[OF this] obtain rs where "bs = map Num rs" "list_all (\<lambda>r. 0 \<le> r) rs" by blast
  with r have "b # bs = map Num (r # rs) \<and> list_all (\<lambda>r. 0 \<le> r) (r # rs)" by simp
  then show ?case by (intro exI[of _ "r # rs"])
qed

lemma variance_Num:
  "foldl (\<lambda>sum val. jadd sum (jmul (jsub val (Num a)) (jsub val (Num a)))) (Num s) (map Num rs)
     = Num (s + (\<Sum>r\<leftarrow>rs. (r - a) * (r - a)))"
  by (induction rs arbitrary: s) (simp_all add: jsub_def add.assoc)

lemma sum_sq_nonneg: "0 \<le> (\<Sum>r\<leftarrow>rs. (r - a) * (r - (a::real)))"
  by (rule sum_list_nonneg) auto

lemma jgt_not_NaN: "jgt a b \<Longrightarrow> a \<noteq> NaN \<and> b \<noteq> NaN"
  by (cases a; cases b) (simp_all add: jgt_def)

lemma jmul_not_NaN: "jmul a b \<noteq> NaN \<Longrightarrow> a \<noteq> NaN \<and> b \<noteq> NaN"
  by (cases a; cases b) simp_all

lemma jdiv_not_NaN: "jdiv a b \<noteq> NaN \<Longrightarrow> a \<noteq> NaN \<and> b \<noteq> NaN"
  by (cases a; cases b) simp_all


subsection \<open>Projections of one call of \<open>process\<close>\<close>

lemma process_energyBuffer:
  "energyBuffer (snd (process d s t c)) = push_shift 43 (energyBuffer d) (calculateTotalEnergy s)"
  by (simp add: process_def Let_def case_prod_beta)

lemma process_adaptiveThreshold:
  "adaptiveThreshold (snd (process d s t c)) =
     threshold_of (push_shift 43 (energyBuffer d) (calculateTotalEnergy s))"
  by (simp add: process_def Let_def case_prod_beta threshold_of_def variance_of_def avg_of_def)

lemma process_energy: "br_energy (fst (process d s t c)) = calculateTotalEnergy s"
  by (simp add: process_def Let_def case_prod_beta)

lemma process_beat:
  "br_beat (fst (process d s t c)) =
     (jgt (calculateTotalEnergy s)
          (jmul (threshold_of (push_shift 43 (energyBuffer d) (calculateTotalEnergy s)))
                (avg_of (push_shift 43 (energyBuffer d) (calculateTotalEnergy s)))) \<and>
      t - lastBeatTime d > minBeatInterval d)"
  by (simp add: process_def Let_def case_prod_beta threshold_of_def variance_of_def avg_of_def)

lemma process_confidence:
  "br_confidence (fst (process d s t c)) =
     (if br_beat (fst (process d s t c))
      then jmin (Num 1)
             (jmul (jsub (jdiv (calculateTotalEnergy s)
                               (jmul (avg_of (push_shift 43 (energyBuffer d) (calculateTotalEnergy s)))
                                     (threshold_of (push_shift 43 (energyBuffer d) (calculateTotalEnergy s)))))
                         (Num 1)) (Num 2))
      else Num 0)"
  by (simp add: process_def Let_def case_prod_beta threshold_of_def variance_of_def avg_of_def)

lemma process_lastBeatTime:
  "lastBeatTime (snd (process d s t c)) = (if br_beat (fst (process d s t c)) then t else lastBeatTime d)"
  by (simp add: process_def Let_def case_prod_beta)

lemma process_minBeatInterval: "minBeatInterval (snd (process d s t c)) = minBeatInterval d"
  by (simp add: process_def Let_def case_prod_beta)

lemma process_kick:
  "br_kick (fst (process d s t c)) =
     fst (KickDetector_detect (kickDetector d) s (calculateBassEnergy s) (now_kick c))"
  "kickDetector (snd (process d s t c)) =
     snd (KickDetector_detect (kickDetector d) s (calculateBassEnergy s) (now_kick c))"
  by (simp_all add: process_def Let_def case_prod_beta)

lemma process_snare:
  "br_snare (fst (process d s t c)) = fst (SnareDetector_detect (snareDetector d) s (now_snare c))"
  "snareDetector (snd (process d s t c)) = snd (SnareDetector_detect (snareDetector d) s (now_snare c))"
  by (simp_all add: process_def Let_def case_prod_beta)

lemma process_hihat:
  "br_hihat (fst (process d s t c)) = fst (HihatDetector_detect (hihatDetector d) s (now_hihat c))"
  "hihatDetector (snd (process d s t c)) = snd (HihatDetector_detect (hihatDetector d) s (now_hihat c))"
  by (simp_all add: process_def Let_def case_prod_beta)

lemma kick_gap:
  "fst (KickDetector_detect kd s b now) \<Longrightarrow> 200 < now - lastKickTime kd"
  "lastKickTime (snd (KickDetector_detect kd s b now)) =
     (if fst (KickDetector_detect kd s b now) then now else lastKickTime kd)"
  by (simp_all add: KickDetector_detect_def Let_def)

lemma snare_gap:
  "fst (SnareDetector_detect sd s now) \<Longrightarrow> 180 < now - lastSnareTime sd"
  "lastSnareTime (snd (SnareDetector_detect sd s now)) =
     (if fst (SnareDetector_detect sd s now) then now else lastSnareTime sd)"
  by (simp_all add: SnareDetector_detect_def Let_def)

lemma hihat_gap:
  "fst (HihatDetector_detect hh s now) \<Longrightarrow> 120 < now - lastHihatTime hh"
  "lastHihatTime (snd (HihatDetector_detect hh s now)) =
     (if fst (HihatDetector_detect hh s now) then now else lastHihatTime hh)"
  by (simp_all add: HihatDetector_detect_def Let_def)


lemmas run_defs =
  process_def Let_def case_prod_beta new_AdvancedBeatDetector_def
  new_KickDetector_def new_SnareDetector_def new_HihatDetector_def push_shift_def
  calculateBassEnergy_def calculateTotalEnergy_def sumsq_def jsum_def jgt_def jsub_def jmin_def
  KickDetector_detect_def SnareDetector_detect_def HihatDetector_detect_def
  calculateSubBassEnergy_def calculateMidEnergy_def calculateHighMidEnergy_def
  calculateNoiseComponent_def calculateHighFreqEnergy_def calculateBrillianceEnergy_def
  floor_frac_def inf_of_sign_def drums_at_def steady_clock_def lagging_clock_def paced_clock_def

lemmas tempo_defs =
  TempoTracker_update_def calculateTempo_def calculateTempoConfidence_def
  new_TempoTracker_def push_shift_def Let_def case_prod_beta jge_def jsum_def jsub_def jmax_def
  inf_of_sign_def beat_only_def

subsection \<open>Dependence on the clock\<close>

text \<open>
  C1 as stated (identical input sequences give identical outputs, with no dependence on
  the wall clock) fails. The same two inputs give a kick on the second call when the
  detector reads the clock at 5000 ms and none when it reads it at 150 ms; the same
  five beats give tempo 120 or 150 according to the clock readings of the tracker.
\<close>

theorem C1_outputs_depend_on_clock:
  "map br_kick (process_run new_AdvancedBeatDetector (steady_clock 150) 0
                  [([0, 0], 1000), ([1, 1], 1016)]) = [False, False] \<and>
   map br_kick (process_run new_AdvancedBeatDetector (steady_clock 5000) 0
                  [([0, 0], 1000), ([1, 1], 1016)]) = [False, True] \<and>
   update_run new_TempoTracker
     [(beat_only, 1000), (beat_only, 1500), (beat_only, 2000), (beat_only, 2500),
      (beat_only, 3000)] = [Num 0, Num 0, Num 0, Num 0, Num 120] \<and>
   update_run new_TempoTracker
     [(beat_only, 1000), (beat_only, 1400), (beat_only, 1800), (beat_only, 2200),
      (beat_only, 2600)] = [Num 0, Num 0, Num 0, Num 0, Num 150]"
proof -
  have k: "map br_kick (process_run new_AdvancedBeatDetector (steady_clock 150) 0
                  [([0, 0], 1000), ([1, 1], 1016)]) = [False, False]"
    "map br_kick (process_run new_AdvancedBeatDetector (steady_clock 5000) 0
                  [([0, 0], 1000), ([1, 1], 1016)]) = [False, True]"
    by (simp_all add: run_defs)
  have t: "update_run new_TempoTracker
     [(beat_only, 1000), (beat_only, 1500), (beat_only, 2000), (beat_only, 2500),
      (beat_only, 3000)] = [Num 0, Num 0, Num 0, Num 0, Num 120]"
    "update_run new_TempoTracker
     [(beat_only, 1000), (beat_only, 1400), (beat_only, 1800), (beat_only, 2200),
      (beat_only, 2600)] = [Num 0, Num 0, Num 0, Num 0, Num 150]"
    by (simp_all add: tempo_defs)
  from k t show ?thesis by simp
qed

lemma process_core:
  assumes "energyBuffer d1 = energyBuffer d2" "bassBuffer d1 = bassBuffer d2"
    "lastBeatTime d1 = lastBeatTime d2" "minBeatInterval d1 = minBeatInterval d2"
  shows "beat_fields (fst (process d1 s t c1)) = beat_fields (fst (process d2 s t c2))"
    and "energyBuffer (snd (process d1 s t c1)) = energyBuffer (snd (process d2 s t c2))"
    and "bassBuffer (snd (process d1 s t c1)) = bassBuffer (snd (process d2 s t c2))"
    and "lastBeatTime (snd (process d1 s t c1)) = lastBeatTime (snd (process d2 s t c2))"
    and "minBeatInterval (snd (process d1 s t c1)) = minBeatInterval (snd (process d2 s t c2))"
  using assms by (simp_all add: process_def Let_def case_prod_beta beat_fields_def)

lemma process_run_core:
  "energyBuffer d1 = energyBuffer d2 \<Longrightarrow> bassBuffer d1 = bassBuffer d2 \<Longrightarrow>
   lastBeatTime d1 = lastBeatTime d2 \<Longrightarrow> minBeatInterval d1 = minBeatInterval d2 \<Longrightarrow>
   map beat_fields (process_run d1 clk1 k1 ins) = map beat_fields (process_run d2 clk2 k2 ins)"
proof (induction ins arbitrary: d1 d2 k1 k2)
  case Nil
  then show ?case by simp
next
  case (Cons x ins)
  obtain s t where x: "x = (s, t)" by (cases x)
  note pc = process_core[OF Cons.prems, of s t "clk1 k1" "clk2 k2"]
  have "map beat_fields (process_run (snd (process d1 s t (clk1 k1))) clk1 (Suc k1) ins) =
        map beat_fields (process_run (snd (process d2 s t (clk2 k2))) clk2 (Suc k2) ins)"
    by (rule Cons.IH[OF pc(2) pc(3) pc(4) pc(5)])
  with pc(1) x show ?case by simp
qed


text \<open>
  C1, amended: for one input sequence of spectra and timestamps, two fresh beat
  detectors return the same beat flag, confidence, energy and bass energy at every call,
  whatever the clock readings of the two runs. (The feature vector of \<open>analyze\<close> does not
  read the clock at all. The kick, snare and hihat flags and the tempo depend on the
  readings of \<^verbatim>\<open>performance.now()\<close> as well.)
\<close>

theorem C1_beat_fields_clock_independent:
  "map beat_fields (process_run new_AdvancedBeatDetector clk1 0 ins) =
   map beat_fields (process_run new_AdvancedBeatDetector clk2 0 ins)"
  by (rule process_run_core) simp_all

subsection \<open>Refractory windows\<close>

lemma length_event_run [simp]: "length (event_run step k st xs) = length xs"
  by (induction xs arbitrary: k st) simp_all

lemma first_event_after:
  assumes ok: "\<And>k st x. P st \<Longrightarrow> fst (step k st x) \<Longrightarrow> gap < tm k x - lst st"
    and upd: "\<And>k st x. P st \<Longrightarrow> lst (snd (step k st x)) = (if fst (step k st x) then tm k x else lst st)"
    and pres: "\<And>k st x. P st \<Longrightarrow> P (snd (step k st x))"
  shows "P st \<Longrightarrow> j < length xs \<Longrightarrow> event_run step k st xs ! j \<Longrightarrow>
         (\<forall>m<j. \<not> event_run step k st xs ! m) \<Longrightarrow> gap < tm (k + j) (xs ! j) - lst st"
proof (induction xs arbitrary: k st j)
  case Nil
  then show ?case by simp
next
  case (Cons x xs)
  show ?case
  proof (cases j)
    case 0
    with Cons.prems ok show ?thesis by simp
  next
    case (Suc j')
    from Cons.prems(4) Suc have nofire: "\<not> fst (step k st x)" by fastforce
    with upd[OF Cons.prems(1)] have l: "lst (snd (step k st x)) = lst st" by simp
    have "gap < tm (Suc k + j') (xs ! j') - lst (snd (step k st x))"
    proof (rule Cons.IH)
      show "P (snd (step k st x))" by (rule pres[OF Cons.prems(1)])
      show "j' < length xs" using Cons.prems(2) Suc by simp
      show "event_run step (Suc k) (snd (step k st x)) xs ! j'" using Cons.prems(3) Suc by simp
      show "\<forall>m<j'. \<not> event_run step (Suc k) (snd (step k st x)) xs ! m"
        using Cons.prems(4) Suc by fastforce
    qed
    with l Suc show ?thesis by simp
  qed
qed

lemma refractory_generic:
  assumes ok: "\<And>k st x. P st \<Longrightarrow> fst (step k st x) \<Longrightarrow> gap < tm k x - lst st"
    and upd: "\<And>k st x. P st \<Longrightarrow> lst (snd (step k st x)) = (if fst (step k st x) then tm k x else lst st)"
    and pres: "\<And>k st x. P st \<Longrightarrow> P (snd (step k st x))"
  shows "P st \<Longrightarrow> i < j \<Longrightarrow> j < length xs \<Longrightarrow> event_run step k st xs ! i \<Longrightarrow>
         event_run step k st xs ! j \<Longrightarrow>
         (\<forall>m. i < m \<and> m < j \<longrightarrow> \<not> event_run step k st xs ! m) \<Longrightarrow>
         gap < tm (k + j) (xs ! j) - tm (k + i) (xs ! i)"
proof (induction xs arbitrary: k st i j)
  case Nil
  then show ?case by simp
next
  case (Cons x xs)
  from Cons.prems(2) obtain j' where j: "j = Suc j'" by (cases j) auto
  show ?case
  proof (cases i)
    case 0
    with Cons.prems(4) have fire: "fst (step k st x)" by simp
    with upd[OF Cons.prems(1)] have l: "lst (snd (step k st x)) = tm k x" by simp
    have "gap < tm (Suc k + j') (xs ! j') - lst (snd (step k st x))"
    proof (rule first_event_after[where P=P and step=step, OF ok upd pres])
      show "P (snd (step k st x))" by (rule pres[OF Cons.prems(1)])
      show "j' < length xs" using Cons.prems(3) j by simp
      show "event_run step (Suc k) (snd (step k st x)) xs ! j'" using Cons.prems(5) j by simp
      show "\<forall>m<j'. \<not> event_run step (Suc k) (snd (step k st x)) xs ! m"
      proof (intro allI impI)
        fix m assume "m < j'"
        then have "0 < Suc m \<and> Suc m < j" using j by simp
        with Cons.prems(6) 0 have "\<not> event_run step k st (x # xs) ! Suc m" by blast
        then show "\<not> event_run step (Suc k) (snd (step k st x)) xs ! m" by simp
      qed
    qed
    with l 0 j show ?thesis by simp
  next
    case (Suc i')
    have "gap < tm (Suc k + j') (xs ! j') - tm (Suc k + i') (xs ! i')"
    proof (rule Cons.IH)
      show "P (snd (step k st x))" by (rule pres[OF Cons.prems(1)])
      show "i' < j'" using Cons.prems(2) Suc j by simp
      show "j' < length xs" using Cons.prems(3) j by simp
      show "event_run step (Suc k) (snd (step k st x)) xs ! i'" using Cons.prems(4) Suc by simp
      show "event_run step (Suc k) (snd (step k st x)) xs ! j'" using Cons.prems(5) j by simp
      show "\<forall>m. i' < m \<and> m < j' \<longrightarrow> \<not> event_run step (Suc k) (snd (step k st x)) xs ! m"
      proof (intro allI impI)
        fix m assume "i' < m \<and> m < j'"
        then have "i < Suc m \<and> Suc m < j" using j Suc by simp
        with Cons.prems(6) have "\<not> event_run step k st (x # xs) ! Suc m" by blast
        then show "\<not> event_run step (Suc k) (snd (step k st x)) xs ! m" by simp
      qed
    qed
    with Suc j show ?thesis by simp
  qed
qed


lemma process_run_events:
  "map sel (process_run d clk k ins) =
     event_run (\<lambda>k d x. (sel (fst (process d (fst x) (snd x) (clk k))),
                          snd (process d (fst x) (snd x) (clk k)))) k d ins"
  by (induction d clk k ins rule: process_run.induct) simp_all

lemma length_process_run [simp]: "length (process_run d clk k ins) = length ins"
  by (induction d clk k ins rule: process_run.induct) simp_all

lemma nth_process_run_events:
  "m < length ins \<Longrightarrow>
   sel (process_run d clk k ins ! m) =
     event_run (\<lambda>k d x. (sel (fst (process d (fst x) (snd x) (clk k))),
                          snd (process d (fst x) (snd x) (clk k)))) k d ins ! m"
proof -
  assume m: "m < length ins"
  then have "sel (process_run d clk k ins ! m) = map sel (process_run d clk k ins) ! m" by simp
  then show ?thesis by (simp only: process_run_events)
qed

lemma beat_refractory:
  assumes "i < j" "j < length ins"
    and "br_beat (process_run new_AdvancedBeatDetector clk 0 ins ! i)"
    and "br_beat (process_run new_AdvancedBeatDetector clk 0 ins ! j)"
    and "\<forall>m. i < m \<and> m < j \<longrightarrow> \<not> br_beat (process_run new_AdvancedBeatDetector clk 0 ins ! m)"
  shows "250 < snd (ins ! j) - snd (ins ! i)"
proof -
  let ?step = "\<lambda>k d x. (br_beat (fst (process d (fst x) (snd x) (clk k))),
                          snd (process d (fst x) (snd x) (clk k)))"
  have "250 < (\<lambda>k x. snd x) (0 + j) (ins ! j) - (\<lambda>k x. snd x) (0 + i) (ins ! i)"
  proof (rule refractory_generic[where P="\<lambda>d. minBeatInterval d = 250" and step="?step"
        and lst=lastBeatTime and st=new_AdvancedBeatDetector and xs=ins and k=0])
    show "minBeatInterval new_AdvancedBeatDetector = 250" by (simp add: new_AdvancedBeatDetector_def)
    show "i < j" by fact
    show "j < length ins" by fact
    show "event_run ?step 0 new_AdvancedBeatDetector ins ! i"
      using assms(1,2,3) nth_process_run_events[of i ins br_beat] by simp
    show "event_run ?step 0 new_AdvancedBeatDetector ins ! j"
      using assms(2,4) nth_process_run_events[of j ins br_beat] by simp
    show "\<forall>m. i < m \<and> m < j \<longrightarrow> \<not> event_run ?step 0 new_AdvancedBeatDetector ins ! m"
      using assms(2,5) nth_process_run_events[of _ ins br_beat] by simp
  qed (simp_all add: process_beat process_lastBeatTime process_minBeatInterval)
  then show ?thesis by simp
qed

lemma kick_refractory:
  assumes "i < j" "j < length ins"
    and "br_kick (process_run d clk 0 ins ! i)"
    and "br_kick (process_run d clk 0 ins ! j)"
    and "\<forall>m. i < m \<and> m < j \<longrightarrow> \<not> br_kick (process_run d clk 0 ins ! m)"
  shows "200 < now_kick (clk j) - now_kick (clk i)"
proof -
  let ?step = "\<lambda>k d x. (br_kick (fst (process d (fst x) (snd x) (clk k))),
                          snd (process d (fst x) (snd x) (clk k)))"
  have "200 < (\<lambda>k (x :: real list \<times> real). now_kick (clk k)) (0 + j) (ins ! j)
            - (\<lambda>k x. now_kick (clk k)) (0 + i) (ins ! i)"
  proof (rule refractory_generic[where P="\<lambda>d. True" and step="?step"
        and lst="\<lambda>d. lastKickTime (kickDetector d)" and st=d and xs=ins and k=0])
    show "i < j" by fact
    show "j < length ins" by fact
    show "event_run ?step 0 d ins ! i"
      using assms(1,2,3) nth_process_run_events[of i ins br_kick] by simp
    show "event_run ?step 0 d ins ! j"
      using assms(2,4) nth_process_run_events[of j ins br_kick] by simp
    show "\<forall>m. i < m \<and> m < j \<longrightarrow> \<not> event_run ?step 0 d ins ! m"
      using assms(2,5) nth_process_run_events[of _ ins br_kick] by simp
  qed (simp_all add: process_kick kick_gap)
  then show ?thesis by simp
qed

lemma snare_refractory:
  assumes "i < j" "j < length ins"
    and "br_snare (process_run d clk 0 ins ! i)"
    and "br_snare (process_run d clk 0 ins ! j)"
    and "\<forall>m. i < m \<and> m < j \<longrightarrow> \<not> br_snare (process_run d clk 0 ins ! m)"
  shows "180 < now_snare (clk j) - now_snare (clk i)"
proof -
  let ?step = "\<lambda>k d x. (br_snare (fst (process d (fst x) (snd x) (clk k))),
                          snd (process d (fst x) (snd x) (clk k)))"
  have "180 < (\<lambda>k (x :: real list \<times> real). now_snare (clk k)) (0 + j) (ins ! j)
            - (\<lambda>k x. now_snare (clk k)) (0 + i) (ins ! i)"
  proof (rule refractory_generic[where P="\<lambda>d. True" and step="?step"
        and lst="\<lambda>d. lastSnareTime (snareDetector d)" and st=d and xs=ins and k=0])
    show "i < j" by fact
    show "j < length ins" by fact
    show "event_run ?step 0 d ins ! i"
      using assms(1,2,3) nth_process_run_events[of i ins br_snare] by simp
    show "event_run ?step 0 d ins ! j"
      using assms(2,4) nth_process_run_events[of j ins br_snare] by simp
    show "\<forall>m. i < m \<and> m < j \<longrightarrow> \<not> event_run ?step 0 d ins ! m"
      using assms(2,5) nth_process_run_events[of _ ins br_snare] by simp
  qed (simp_all add: process_snare snare_gap)
  then show ?thesis by simp
qed

lemma hihat_refractory:
  assumes "i < j" "j < length ins"
    and "br_hihat (process_run d clk 0 ins ! i)"
    and "br_hihat (process_run d clk 0 ins ! j)"
    and "\<forall>m. i < m \<and> m < j \<longrightarrow> \<not> br_hihat (process_run d clk 0 ins ! m)"
  shows "120 < now_hihat (clk j) - now_hihat (clk i)"
proof -
  let ?step = "\<lambda>k d x. (br_hihat (fst (process d (fst x) (snd x) (clk k))),
                          snd (process d (fst x) (snd x) (clk k)))"
  have "120 < (\<lambda>k (x :: real list \<times> real). now_hihat (clk k)) (0 + j) (ins ! j)
            - (\<lambda>k x. now_hihat (clk k)) (0 + i) (ins ! i)"
  proof (rule refractory_generic[where P="\<lambda>d. True" and step="?step"
        and lst="\<lambda>d. lastHihatTime (hihatDetector d)" and st=d and xs=ins and k=0])
    show "i < j" by fact
    show "j < length ins" by fact
    show "event_run ?step 0 d ins ! i"
      using assms(1,2,3) nth_process_run_events[of i ins br_hihat] by simp
    show "event_run ?step 0 d ins ! j"
      using assms(2,4) nth_process_run_events[of j ins br_hihat] by simp
    show "\<forall>m. i < m \<and> m < j \<longrightarrow> \<not> event_run ?step 0 d ins ! m"
      using assms(2,5) nth_process_run_events[of _ ins br_hihat] by simp
  qed (simp_all add: process_hihat hihat_gap)
  then show ?thesis by simp
qed


text \<open>
  C4 as stated fails for the drum flags: the drum detectors measure their refractory
  window on their own clock readings, not on the timestamps passed to \<open>process\<close>. With
  strictly increasing timestamps 1000, 1100, 1299 and kick clock readings 1000.2,
  1100.5, 1301, the second and third call both report a kick, 199 ms apart in
  timestamps.
\<close>

theorem C4_kicks_closer_than_window:
  "br_kick (process_run new_AdvancedBeatDetector
              lagging_clock 0
              [([0, 0], 1000), ([1, 1], 1100), ([1, 1], 1299)] ! 1) \<and>
   br_kick (process_run new_AdvancedBeatDetector
              lagging_clock 0
              [([0, 0], 1000), ([1, 1], 1100), ([1, 1], 1299)] ! 2) \<and>
   (1000::real) < 1100 \<and> (1100::real) < 1299 \<and> \<not> (200::real) \<le> 1299 - 1100"
  by (simp add: run_defs)

text \<open>
  C4, amended: along every run of \<open>process\<close> from a fresh detector, two consecutive
  true detections of one kind are separated by more than that kind's window, measured
  for the beat flag on the timestamps passed to \<open>process\<close> (more than 250 ms) and for
  the kick, snare and hihat flags on the readings of \<^verbatim>\<open>performance.now()\<close> taken
  inside the respective detector (more than 200, 180 and 120 ms).
\<close>

theorem C4_refractory_windows:
  assumes "i < j" and "j < length ins"
  shows "(br_beat (process_run new_AdvancedBeatDetector clk 0 ins ! i) \<and>
          br_beat (process_run new_AdvancedBeatDetector clk 0 ins ! j) \<and>
          (\<forall>m. i < m \<and> m < j \<longrightarrow> \<not> br_beat (process_run new_AdvancedBeatDetector clk 0 ins ! m))
            \<longrightarrow> 250 < snd (ins ! j) - snd (ins ! i)) \<and>
         (br_kick (process_run new_AdvancedBeatDetector clk 0 ins ! i) \<and>
          br_kick (process_run new_AdvancedBeatDetector clk 0 ins ! j) \<and>
          (\<forall>m. i < m \<and> m < j \<longrightarrow> \<not> br_kick (process_run new_AdvancedBeatDetector clk 0 ins ! m))
            \<longrightarrow> 200 < now_kick (clk j) - now_kick (clk i)) \<and>
         (br_snare (process_run new_AdvancedBeatDetector clk 0 ins ! i) \<and>
          br_snare (process_run new_AdvancedBeatDetector clk 0 ins ! j) \<and>
          (\<forall>m. i < m \<and> m < j \<longrightarrow> \<not> br_snare (process_run new_AdvancedBeatDetector clk 0 ins ! m))
            \<longrightarrow> 180 < now_snare (clk j) - now_snare (clk i)) \<and>
         (br_hihat (process_run new_AdvancedBeatDetector clk 0 ins ! i) \<and>
          br_hihat (process_run new_AdvancedBeatDetector clk 0 ins ! j) \<and>
          (\<forall>m. i < m \<and> m < j \<longrightarrow> \<not> br_hihat (process_run new_AdvancedBeatDetector clk 0 ins ! m))
            \<longrightarrow> 120 < now_hihat (clk j) - now_hihat (clk i))"
  using beat_refractory[OF assms] kick_refractory[OF assms] snare_refractory[OF assms]
    hihat_refractory[OF assms]
  by blast

theorem C4_refractory_windows_witness:
  "(1::nat) < 3 \<and>
   3 < length [(quiet, 1000::real), (loud, 1150), (quiet, 1300), (loud, 1450)] \<and>
   map beat_fields (process_run new_AdvancedBeatDetector paced_clock 0
      [(quiet, 1000), (loud, 1150), (quiet, 1300), (loud, 1450)]) =
     [(False, Num 0, Num 0, Num 0), (True, Num (6 / 17), Num 1, Num 1),
      (False, Num 0, Num 0, Num 0), (True, Num (6 / 17), Num 1, Num 1)] \<and>
   map br_kick (process_run new_AdvancedBeatDetector paced_clock 0
      [(quiet, 1000), (loud, 1150), (quiet, 1300), (loud, 1450)]) = [False, True, False, True] \<and>
   map br_snare (process_run new_AdvancedBeatDetector paced_clock 0
      [(quiet, 1000), (loud, 1150), (quiet, 1300), (loud, 1450)]) = [False, True, False, True] \<and>
   map br_hihat (process_run new_AdvancedBeatDetector paced_clock 0
      [(quiet, 1000), (loud, 1150), (quiet, 1300), (loud, 1450)]) = [False, True, False, True] \<and>
   (250::real) < snd ([(quiet, 1000::real), (loud, 1150), (quiet, 1300), (loud, 1450)] ! 3)
                 - snd ([(quiet, 1000::real), (loud, 1150), (quiet, 1300), (loud, 1450)] ! 1) \<and>
   200 < now_kick (paced_clock 3) - now_kick (paced_clock 1) \<and>
   180 < now_snare (paced_clock 3) - now_snare (paced_clock 1) \<and>
   120 < now_hihat (paced_clock 3) - now_hihat (paced_clock 1)"
proof -
  let ?ins = "[(quiet, 1000::real), (loud, 1150), (quiet, 1300), (loud, 1450)]"
  let ?clk = paced_clock
  let ?R = "process_run new_AdvancedBeatDetector ?clk 0 ?ins"
  have R: "?R =
     [\<lparr>br_beat = False, br_kick = False, br_snare = False, br_hihat = False,
        br_confidence = Num 0, br_energy = Num 0, br_bassEnergy = Num 0\<rparr>,
      \<lparr>br_beat = True, br_kick = True, br_snare = True, br_hihat = True,
        br_confidence = Num (6 / 17), br_energy = Num 1, br_bassEnergy = Num 1\<rparr>,
      \<lparr>br_beat = False, br_kick = False, br_snare = False, br_hihat = False,
        br_confidence = Num 0, br_energy = Num 0, br_bassEnergy = Num 0\<rparr>,
      \<lparr>br_beat = True, br_kick = True, br_snare = True, br_hihat = True,
        br_confidence = Num (6 / 17), br_energy = Num 1, br_bassEnergy = Num 1\<rparr>]"
    by (simp add: run_defs quiet_def loud_def)
  have two: "\<And>m::nat. 1 < m \<and> m < 3 \<Longrightarrow> m = 2" by arith
  have h1: "(1::nat) < 3" by simp
  have h2: "3 < length ?ins" by simp
  have b: "br_beat (?R ! 1) \<and> br_beat (?R ! 3) \<and> (\<forall>m. 1 < m \<and> m < 3 \<longrightarrow> \<not> br_beat (?R ! m))"
    unfolding R using two by auto
  have k: "br_kick (?R ! 1) \<and> br_kick (?R ! 3) \<and> (\<forall>m. 1 < m \<and> m < 3 \<longrightarrow> \<not> br_kick (?R ! m))"
    unfolding R using two by auto
  have s: "br_snare (?R ! 1) \<and> br_snare (?R ! 3) \<and> (\<forall>m. 1 < m \<and> m < 3 \<longrightarrow> \<not> br_snare (?R ! m))"
    unfolding R using two by auto
  have h: "br_hihat (?R ! 1) \<and> br_hihat (?R ! 3) \<and> (\<forall>m. 1 < m \<and> m < 3 \<longrightarrow> \<not> br_hihat (?R ! m))"
    unfolding R using two by auto
  note main = C4_refractory_windows[OF h1 h2, of ?clk]
  from main b have c1: "250 < snd (?ins ! 3) - snd (?ins ! 1)" by blast
  from main k have c2: "200 < now_kick (?clk 3) - now_kick (?clk 1)" by blast
  from main s have c3: "180 < now_snare (?clk 3) - now_snare (?clk 1)" by blast
  from main h have c4: "120 < now_hihat (?clk 3) - now_hihat (?clk 1)" by blast
  have fields: "map beat_fields ?R =
     [(False, Num 0, Num 0, Num 0), (True, Num (6 / 17), Num 1, Num 1),
      (False, Num 0, Num 0, Num 0), (True, Num (6 / 17), Num 1, Num 1)]"
    "map br_kick ?R = [False, True, False, True]"
    "map br_snare ?R = [False, True, False, True]"
    "map br_hihat ?R = [False, True, False, True]"
    unfolding R by (simp_all add: beat_fields_def)
  show ?thesis
    using h1 h2 fields c1 c2 c3 c4 by blast
qed

subsection \<open>Tempo range\<close>

lemma bpm_accept:
  assumes "jge (jdiv (Num 60000) (Num i)) (Num 60)" "jle (jdiv (Num 60000) (Num i)) (Num 200)"
  shows "300 \<le> i \<and> i \<le> 1000"
proof (cases "i = 0")
  case True
  with assms show ?thesis by (simp add: jge_def inf_of_sign_def)
next
  case False
  with assms have a: "60 \<le> 60000 / i" and b: "60000 / i \<le> 200" by (simp_all add: jge_def)
  from a False have pos: "i > 0"
    by (smt (verit) divide_nonpos_neg divide_nonneg_neg zero_le_divide_iff)
  from a b pos show ?thesis by (simp add: field_simps)
qed

lemma bpm_of_interval: "300 \<le> i \<Longrightarrow> i \<le> 1000 \<Longrightarrow> in_bpm_range (jdiv (Num 60000) (Num i))"
  by (simp add: in_bpm_range_def field_simps)

lemma median_in_set: "xs \<noteq> [] \<Longrightarrow> sort xs ! (length (sort xs) div 2) \<in> set xs"
proof -
  assume "xs \<noteq> []"
  then have "length (sort xs) div 2 < length (sort xs)" by (cases xs) auto
  then have "sort xs ! (length (sort xs) div 2) \<in> set (sort xs)" by (rule nth_mem)
  then show ?thesis by simp
qed

lemma bpm_list_reals:
  "list_all in_bpm_range bs \<Longrightarrow> \<exists>rs. bs = map Num rs \<and> list_all (\<lambda>r. 60 \<le> r \<and> r \<le> 200) rs"
proof (induction bs)
  case Nil
  then show ?case by simp
next
  case (Cons b bs)
  then obtain rs where rs: "bs = map Num rs" "list_all (\<lambda>r. 60 \<le> r \<and> r \<le> 200) rs" by auto
  from Cons.prems obtain r where r: "b = Num r" "60 \<le> r" "r \<le> 200"
    by (auto simp: in_bpm_range_def split: number.splits)
  have "b # bs = map Num (r # rs) \<and> list_all (\<lambda>r. 60 \<le> r \<and> r \<le> 200) (r # rs)"
    using rs r by simp
  then show ?case by (intro exI[of _ "r # rs"])
qed

lemma sum_list_bounds:
  "list_all (\<lambda>r. lo \<le> r \<and> r \<le> hi) rs \<Longrightarrow>
   lo * real (length rs) \<le> sum_list rs \<and> sum_list rs \<le> hi * real (length rs)"
  by (induction rs) (auto simp: algebra_simps)

lemma mean_in_bpm_range:
  assumes "list_all in_bpm_range bs" "bs \<noteq> []"
  shows "in_bpm_range (jdiv (jsum bs) (Num (real (length bs))))"
proof -
  from bpm_list_reals[OF assms(1)] obtain rs where
    rs: "bs = map Num rs" "list_all (\<lambda>r. 60 \<le> r \<and> r \<le> 200) rs" by blast
  from assms(2) rs have n: "0 < real (length rs)" by simp
  from sum_list_bounds[OF rs(2)] have
    b: "60 * real (length rs) \<le> sum_list rs" "sum_list rs \<le> 200 * real (length rs)" by simp_all
  have "60 \<le> sum_list rs / real (length rs)" "sum_list rs / real (length rs) \<le> 200"
    using b n by (simp_all add: field_simps)
  then show ?thesis
    using rs n by (simp add: jsum_def jsum_Num in_bpm_range_def)
qed

lemma calculateTempo_inv:
  assumes "list_all (\<lambda>x. 300 \<le> x \<and> x \<le> 1000) (beatIntervals t)"
    and "list_all in_bpm_range (tempoBuffer t)"
  shows "beatIntervals (snd (calculateTempo t)) = beatIntervals t \<and>
         list_all in_bpm_range (tempoBuffer (snd (calculateTempo t))) \<and>
         (if length (beatIntervals t) < 4 then fst (calculateTempo t) = Num 0
          else in_bpm_range (fst (calculateTempo t)))"
proof (cases "length (beatIntervals t) < 4")
  case True
  then show ?thesis using assms by (simp add: calculateTempo_def)
next
  case False
  then have ne: "beatIntervals t \<noteq> []" by auto
  let ?m = "sort (beatIntervals t) ! (length (sort (beatIntervals t)) div 2)"
  have "?m \<in> set (beatIntervals t)" by (rule median_in_set[OF ne])
  with assms(1) have m: "300 \<le> ?m" "?m \<le> 1000" by (simp_all add: list_all_iff)
  have tv: "in_bpm_range (jdiv (Num 60000) (Num ?m))" by (rule bpm_of_interval[OF m])
  let ?buf = "push_shift 8 (tempoBuffer t) (jdiv (Num 60000) (Num ?m))"
  have all: "list_all in_bpm_range ?buf" by (rule list_all_push_shift[OF assms(2) tv])
  have "?buf \<noteq> []" by (simp add: push_shift_nonempty)
  with all have "in_bpm_range (jdiv (jsum ?buf) (Num (real (length ?buf))))"
    by (rule mean_in_bpm_range)
  with all False show ?thesis by (simp add: calculateTempo_def Let_def del: jdiv.simps)
qed

lemma update_inv: "tempo_inv t \<Longrightarrow> tempo_inv (snd (TempoTracker_update t br now))"
proof -
  assume inv: "tempo_inv t"
  show ?thesis
  proof (cases "br_beat br \<and> tt_lastBeatTime t > 0 \<and>
                jge (jdiv (Num 60000) (Num (now - tt_lastBeatTime t))) (Num 60) \<and>
                jle (jdiv (Num 60000) (Num (now - tt_lastBeatTime t))) (Num 200)")
    case False
    then show ?thesis using inv
      by (auto simp add: TempoTracker_update_def Let_def tempo_inv_def simp del: jdiv.simps)
  next
    case True
    let ?i = "now - tt_lastBeatTime t"
    let ?ta = "t\<lparr> beatIntervals := push_shift 16 (beatIntervals t) ?i \<rparr>"
    from True have acc: "300 \<le> ?i \<and> ?i \<le> 1000" by (intro bpm_accept) simp_all
    from inv acc have a1: "list_all (\<lambda>x. 300 \<le> x \<and> x \<le> 1000) (beatIntervals ?ta)"
      by (simp add: tempo_inv_def list_all_push_shift)
    from inv have a2: "list_all in_bpm_range (tempoBuffer ?ta)" by (simp add: tempo_inv_def)
    note ct = calculateTempo_inv[OF a1 a2]
    have eq: "snd (TempoTracker_update t br now) =
          (snd (calculateTempo ?ta))\<lparr> currentTempo := fst (calculateTempo ?ta),
             tt_confidence := calculateTempoConfidence ((snd (calculateTempo ?ta))\<lparr> currentTempo := fst (calculateTempo ?ta)\<rparr>),
             tt_lastBeatTime := now \<rparr>"
      using True by (simp add: TempoTracker_update_def Let_def case_prod_beta del: jdiv.simps)
    show ?thesis
      unfolding eq using ct a1 by (simp add: tempo_inv_def)
  qed
qed

lemma update_returns_current: "fst (TempoTracker_update t br now) = currentTempo (snd (TempoTracker_update t br now))"
  by (simp add: TempoTracker_update_def Let_def case_prod_beta)

lemma new_inv: "tempo_inv new_TempoTracker"
  by (simp add: tempo_inv_def new_TempoTracker_def)

lemma update_state_inv: "tempo_inv t \<Longrightarrow> tempo_inv (update_state t calls)"
  by (induction t calls rule: update_state.induct) (simp_all add: update_inv)


text \<open>
  C5: along every sequence of calls from a fresh tracker, the tempo returned by \<open>update\<close>
  is 0 or a number between 60 and 200, and it is 0 exactly while fewer than four
  intervals have been accepted.
\<close>

theorem C5_tempo_range:
  "(fst (TempoTracker_update (update_state new_TempoTracker calls) br now) = Num 0 \<or>
    (\<exists>r. fst (TempoTracker_update (update_state new_TempoTracker calls) br now) = Num r \<and>
         60 \<le> r \<and> r \<le> 200)) \<and>
   (fst (TempoTracker_update (update_state new_TempoTracker calls) br now) = Num 0) =
     (length (beatIntervals (snd (TempoTracker_update (update_state new_TempoTracker calls) br now))) < 4)"
proof -
  let ?t = "snd (TempoTracker_update (update_state new_TempoTracker calls) br now)"
  have "tempo_inv ?t" by (intro update_inv update_state_inv new_inv)
  then show ?thesis
    unfolding update_returns_current
    by (auto simp: tempo_inv_def in_bpm_range_def split: number.splits if_splits)
qed


theorem C5_tempo_range_witness:
  "fst (TempoTracker_update
          (update_state new_TempoTracker
             [(beat_only, 1000), (beat_only, 1500), (beat_only, 2000), (beat_only, 2500)])
          beat_only 3000) = Num 120 \<and>
   length (beatIntervals (snd (TempoTracker_update
          (update_state new_TempoTracker
             [(beat_only, 1000), (beat_only, 1500), (beat_only, 2000), (beat_only, 2500)])
          beat_only 3000))) = 4"
proof -
  have v: "fst (TempoTracker_update
          (update_state new_TempoTracker
             [(beat_only, 1000), (beat_only, 1500), (beat_only, 2000), (beat_only, 2500)])
          beat_only 3000) = Num 120"
    by (simp add: tempo_defs)
  show ?thesis
    using v C5_tempo_range[of "[(beat_only, 1000), (beat_only, 1500), (beat_only, 2000), (beat_only, 2500)]"
        beat_only 3000]
    by (simp add: tempo_defs)
qed

subsection \<open>Beat confidence\<close>

lemma beat_arith:
  assumes inv: "list_all nonneg_or_nan buf" and ne: "buf \<noteq> []" and last: "last buf = E"
    and gt: "jgt E (jmul (threshold_of buf) (avg_of buf))"
  shows "\<exists>e a th. E = Num e \<and> avg_of buf = Num a \<and> threshold_of buf = Num th \<and>
           0 < a \<and> 1.2 \<le> th \<and> th \<le> 1.7 \<and> th * a < e"
proof -
  from jgt_not_NaN[OF gt] have E: "E \<noteq> NaN" and p: "jmul (threshold_of buf) (avg_of buf) \<noteq> NaN"
    by simp_all
  from jmul_not_NaN[OF p] have "avg_of buf \<noteq> NaN" by simp
  then have "jsum buf \<noteq> NaN" unfolding avg_of_def using jdiv_not_NaN by blast
  then have "foldl jadd (Num 0) buf \<noteq> NaN" by (simp add: jsum_def)
  from jsum_reals[OF inv this] obtain rs where rs: "buf = map Num rs" "list_all (\<lambda>r. 0 \<le> r) rs"
    by blast
  from ne rs have n: "0 < real (length rs)" by simp
  define a where "a = sum_list rs / real (length rs)"
  have avg: "avg_of buf = Num a"
    using n rs by (simp add: avg_of_def jsum_def jsum_Num a_def)
  define v where "v = (\<Sum>r\<leftarrow>rs. (r - a) * (r - a)) / real (length rs)"
  have avg': "avg_of (map Num rs) = Num a"
    using avg rs(1) by simp
  have "variance_of (map Num rs) = Num v"
    unfolding variance_of_def avg' using n by (simp add: variance_Num v_def)
  then have var: "variance_of buf = Num v"
    using rs(1) by simp
  have v0: "0 \<le> v" unfolding v_def using sum_sq_nonneg[where rs=rs and a=a] n by simp
  define th where "th = 1.2 + min 0.5 (v * 2)"
  have thr: "threshold_of buf = Num th"
    by (simp add: threshold_of_def var jmin_def th_def min_def)
  have th_b: "1.2 \<le> th" "th \<le> 1.7" using v0 by (simp_all add: th_def min_def)
  from ne rs have rs_ne: "rs \<noteq> []" by auto
  from last rs rs_ne have Elast: "E = Num (last rs)" by (simp add: last_map)
  define e where "e = last rs"
  have "e \<in> set rs" unfolding e_def using rs_ne by simp
  have sum_ge: "e \<le> sum_list rs"
    using \<open>e \<in> set rs\<close> rs(2) by (simp add: list_all_iff member_le_sum_list)
  have a0: "0 \<le> a" unfolding a_def using rs(2) n by (simp add: list_all_iff sum_list_nonneg)
  from gt have lt: "th * a < e" by (simp add: jgt_def thr avg Elast e_def)
  have "0 \<le> th * a" using th_b a0 by simp
  with lt have "0 < e" by simp
  with sum_ge have "0 < sum_list rs" by simp
  then have apos: "0 < a" unfolding a_def using n by simp
  show ?thesis using Elast avg thr apos th_b lt e_def by auto
qed


lemma process_energy_inv:
  "list_all nonneg_or_nan (energyBuffer d) \<Longrightarrow>
   list_all nonneg_or_nan (energyBuffer (snd (process d s t c)))"
  by (simp add: process_energyBuffer list_all_push_shift totalEnergy_nonneg_or_nan)

lemma process_state_energy_inv:
  "list_all nonneg_or_nan (energyBuffer d) \<Longrightarrow>
   list_all nonneg_or_nan (energyBuffer (process_state d clk k ins))"
  by (induction d clk k ins rule: process_state.induct) (simp_all add: process_energy_inv)

lemma confidence_on_beat:
  assumes inv: "list_all nonneg_or_nan (energyBuffer d)"
    and beat: "br_beat (fst (process d s t c))"
  shows "\<exists>x. 0 < x \<and> x \<le> 1 \<and> br_confidence (fst (process d s t c)) = Num x \<and>
             jmax (Num 0) (jmin (Num 1)
               (jmul (jsub (jdiv (br_energy (fst (process d s t c)))
                              (jmul (avg_of (energyBuffer (snd (process d s t c))))
                                    (adaptiveThreshold (snd (process d s t c)))))
                        (Num 1)) (Num 2))) = Num x"
proof -
  let ?E = "calculateTotalEnergy s"
  let ?buf = "push_shift 43 (energyBuffer d) ?E"
  have binv: "list_all nonneg_or_nan ?buf"
    by (rule list_all_push_shift[OF inv totalEnergy_nonneg_or_nan])
  have ne: "?buf \<noteq> []" by (simp add: push_shift_nonempty)
  have last: "last ?buf = ?E" by (simp add: last_push_shift)
  from beat have gt: "jgt ?E (jmul (threshold_of ?buf) (avg_of ?buf))" by (simp add: process_beat)
  from beat_arith[OF binv ne last gt] obtain e a th where
    v: "?E = Num e" "avg_of ?buf = Num a" "threshold_of ?buf = Num th"
       "0 < a" "1.2 \<le> th" "th \<le> 1.7" "th * a < e" by blast
  have pos: "0 < a * th" using v(4,5) by simp
  have nz: "a \<noteq> 0" "th \<noteq> 0" using v(4,5) by simp_all
  have "1 < e / (a * th)" using v(7) pos by (simp add: field_simps)
  then have "0 < e / (a * th) - 1" by simp
  then have x0: "0 < (e / (a * th) - 1) * 2" by (rule mult_pos_pos) simp
  define x where "x = min 1 ((e / (a * th) - 1) * 2)"
  have xb: "0 < x" "x \<le> 1" using x0 by (simp_all add: x_def)
  have raw: "jmul (jsub (jdiv ?E (jmul (avg_of ?buf) (threshold_of ?buf))) (Num 1)) (Num 2)
               = Num ((e / (a * th) - 1) * 2)"
    unfolding v(2) v(3) unfolding v(1) using nz by (simp add: jsub_def)
  have conf: "br_confidence (fst (process d s t c)) = Num x"
    using beat unfolding process_confidence raw by (simp add: jmin_def x_def min_def)
  have cl: "jmax (Num 0) (jmin (Num 1) (Num ((e / (a * th) - 1) * 2))) = Num x"
    using xb x0 by (simp add: jmax_def jmin_def x_def min_def)
  show ?thesis
    using xb conf cl raw
    by (simp add: process_energy process_energyBuffer process_adaptiveThreshold)
qed


text \<open>
  C7: in every state a fresh detector can reach, when \<open>process\<close> fires a beat the
  confidence it returns is the clamp to [0, 1] of
  (energy / (average energy * adaptive threshold) - 1) * 2, and in every case the
  confidence lies between 0 and 1.
\<close>

theorem C7_confidence:
  "(br_beat (fst (process (process_state new_AdvancedBeatDetector clk0 0 ins) s t c)) \<longrightarrow>
      br_confidence (fst (process (process_state new_AdvancedBeatDetector clk0 0 ins) s t c)) =
        jmax (Num 0) (jmin (Num 1)
          (jmul (jsub (jdiv (br_energy (fst (process (process_state new_AdvancedBeatDetector clk0 0 ins) s t c)))
                            (jmul (jdiv (jsum (energyBuffer (snd (process (process_state new_AdvancedBeatDetector clk0 0 ins) s t c))))
                                        (Num (real (length (energyBuffer (snd (process (process_state new_AdvancedBeatDetector clk0 0 ins) s t c)))))))
                                  (adaptiveThreshold (snd (process (process_state new_AdvancedBeatDetector clk0 0 ins) s t c)))))
                      (Num 1)) (Num 2)))) \<and>
   jle (Num 0) (br_confidence (fst (process (process_state new_AdvancedBeatDetector clk0 0 ins) s t c))) \<and>
   jle (br_confidence (fst (process (process_state new_AdvancedBeatDetector clk0 0 ins) s t c))) (Num 1)"
proof -
  let ?d = "process_state new_AdvancedBeatDetector clk0 0 ins"
  have inv: "list_all nonneg_or_nan (energyBuffer ?d)"
    by (rule process_state_energy_inv) (simp add: new_AdvancedBeatDetector_def)
  show ?thesis
  proof (cases "br_beat (fst (process ?d s t c))")
    case True
    from confidence_on_beat[OF inv True] obtain x where
      x: "0 < x" "x \<le> 1" "br_confidence (fst (process ?d s t c)) = Num x"
        "jmax (Num 0) (jmin (Num 1)
               (jmul (jsub (jdiv (br_energy (fst (process ?d s t c)))
                              (jmul (avg_of (energyBuffer (snd (process ?d s t c))))
                                    (adaptiveThreshold (snd (process ?d s t c)))))
                        (Num 1)) (Num 2))) = Num x" by blast
    show ?thesis
      unfolding x(3) using x(1,2) x(4)[unfolded avg_of_def] by simp
  next
    case False
    then show ?thesis by (simp add: process_confidence)
  qed
qed

theorem C7_confidence_witness:
  "br_beat (fst (process (process_state new_AdvancedBeatDetector (steady_clock 0) 0 [([0], 0)])
                   [1] 1000 (drums_at 1000))) \<and>
   br_confidence (fst (process (process_state new_AdvancedBeatDetector (steady_clock 0) 0 [([0], 0)])
                   [1] 1000 (drums_at 1000))) = Num (6 / 17) \<and>
   jmax (Num 0) (jmin (Num 1)
          (jmul (jsub (jdiv (br_energy (fst (process (process_state new_AdvancedBeatDetector (steady_clock 0) 0 [([0], 0)]) [1] 1000 (drums_at 1000))))
                            (jmul (jdiv (jsum (energyBuffer (snd (process (process_state new_AdvancedBeatDetector (steady_clock 0) 0 [([0], 0)]) [1] 1000 (drums_at 1000)))))
                                        (Num (real (length (energyBuffer (snd (process (process_state new_AdvancedBeatDetector (steady_clock 0) 0 [([0], 0)]) [1] 1000 (drums_at 1000))))))))
                                  (adaptiveThreshold (snd (process (process_state new_AdvancedBeatDetector (steady_clock 0) 0 [([0], 0)]) [1] 1000 (drums_at 1000))))))
                      (Num 1)) (Num 2))) = Num (6 / 17)"
proof -
  let ?d = "process_state new_AdvancedBeatDetector (steady_clock 0) 0 [([0], 0)]"
  have d: "energyBuffer ?d = [Num 0]" "lastBeatTime ?d = 0" "minBeatInterval ?d = 250"
    by (simp_all add: run_defs)
  have b: "br_beat (fst (process ?d [1] 1000 (drums_at 1000)))"
    unfolding process_beat d
    by (simp add: threshold_of_def variance_of_def avg_of_def push_shift_def calculateTotalEnergy_def
        sumsq_def jsum_def jsub_def jmin_def jgt_def)
  have c: "br_confidence (fst (process ?d [1] 1000 (drums_at 1000))) = Num (6 / 17)"
    using b unfolding process_confidence d
    by (simp add: threshold_of_def variance_of_def avg_of_def push_shift_def calculateTotalEnergy_def
        sumsq_def jsum_def jsub_def jmin_def jgt_def)
  from C7_confidence[of "steady_clock 0" "[([0], 0)]" "[1]" 1000 "drums_at 1000"] b c
  show ?thesis by simp
qed

end
